theory Spec2Isabelle
  imports Complex_Main "HOL-Library.Word"
begin

section \<open>Go values used by the client\<close>

text \<open>
  The client is Go code (package \<open>iec_client\<close>, file \<open>iec_client/client.go\<close>, with the
  point types of the same package and the dialogs of package \<open>ui\<close>).  Go's \<open>int\<close> and
  \<open>uint\<close> are taken at 64 bits: \<open>+\<close> on \<open>go_int\<close> wraps as the machine does, and a
  conversion between \<open>int\<close> and \<open>uint\<close> keeps the bits, so both are the same word type.
  \<open>time.Duration\<close> is counted in milliseconds and \<open>time.Time\<close> is a number whose zero
  is Go's zero time.  Go's \<open>float32\<close> and \<open>float64\<close> are the type parameters
  \<open>'f32\<close> and \<open>'f64\<close>; the conversions between them are Go built-ins and are taken
  as parameters (record \<open>externals\<close>).
\<close>

type_synonym go_int = "64 word"
type_synonym InfoObjAddr = "64 word"
type_synonym CommonAddr = "16 word"
type_synonym Duration = nat
type_synonym go_time = nat

definition Millisecond :: Duration where
  "Millisecond = 1"

definition Second :: Duration where
  "Second = 1000 * Millisecond"

text \<open>
  A Go \<open>error\<close>: the package's sentinel \<open>ErrorNoConnection\<close>, an error handed back by
  the transport library, or \<open>fmt.Errorf(prefix ++ "%v", err)\<close>, kept as the prefix and the
  wrapped error.  \<open>nil\<close> is \<open>None\<close> of \<open>go_error option\<close>.
\<close>

datatype go_error =
    ErrorNoConnection
  | LibError string
  | Errorf string go_error

fun Error :: "go_error \<Rightarrow> string" where
  "Error ErrorNoConnection = ''no connection to server''"
| "Error (LibError s) = s"
| "Error (Errorf prefix e) = prefix @ Error e"

datatype go_panic = CloseOfClosedChannel

datatype chan = Open | Closed

text \<open>Go's built-in \<open>close\<close>: closing a closed channel panics.\<close>

fun close :: "chan \<Rightarrow> go_panic + chan" where
  "close Open = Inr Closed"
| "close Closed = Inl CloseOfClosedChannel"

section \<open>The declarations of the transport library that the client names\<close>

text \<open>
  The type identifications that \<open>client.go\<close> names, and one constructor for every other
  one.
\<close>

datatype TypeID =
    M_SP_NA_1 | M_ME_NA_1 | M_ME_NB_1 | M_ME_NC_1 | M_ME_ND_1
  | C_SC_NA_1 | C_SE_NC_1 | C_IC_NA_1
  | OtherTypeID nat

datatype Cause = Activation | OtherCause nat

record CauseOfTransmission =
  IsTest :: bool
  IsNegative :: bool
  Cause :: Cause

record QualifierOfCommand =
  Qual :: nat
  InSelect :: bool

datatype QualifierOfInterrogation = QOIStation | OtherQOI nat

record SingleCommandInfo =
  Ioa :: InfoObjAddr
  Value :: bool
  Qoc :: QualifierOfCommand
  Time :: go_time

record 'f32 SetpointCommandFloatInfo =
  Ioa :: InfoObjAddr
  Value :: 'f32
  Time :: go_time

text \<open>
  One decoded information object of an inbound message: the library's
  \<open>MeasuredValueFloatInfo\<close>, \<open>MeasuredValueNormalInfo\<close>, \<open>MeasuredValueScaledInfo\<close> and
  \<open>SinglePointInfo\<close> differ in the type of \<open>Value\<close> only, as far as the client reads
  them.
\<close>

record 'v InfoObj =
  Ioa :: InfoObjAddr
  Value :: 'v
  Time :: go_time

record Identifier =
  Type :: TypeID
  CommonAddr :: CommonAddr

text \<open>
  A decoded message as the transport hands it to \<open>ASDUHandler\<close>.  The library's decoders
  \<open>GetMeasuredValueFloat\<close>, ... are fields: what each returns for this message.
\<close>

record 'f32 ASDU =
  Identifier :: Identifier
  GetMeasuredValueFloat :: "'f32 InfoObj list"
  GetMeasuredValueNormal :: "16 word InfoObj list"
  GetSinglePoint :: "bool InfoObj list"
  GetMeasuredValueScaled :: "16 word InfoObj list"

record ClientOption =
  AutoReconnect :: bool
  ReconnectInterval :: Duration
  RemoteServer :: "(string \<times> go_int) option"

text \<open>The session handle \<open>*cs104.Client\<close>: the option it was made with and its log mode.\<close>

record session =
  Option :: ClientOption
  LogMode :: bool

section \<open>The point types\<close>

datatype DataType = DT_Telemetry | DT_Teleindication | DT_Telecontrol | DT_Teleregulation

fun String :: "DataType \<Rightarrow> string" where
  "String DT_Telemetry = ''Telemetry''"
| "String DT_Teleindication = ''Teleindication''"
| "String DT_Telecontrol = ''Telecontrol''"
| "String DT_Teleregulation = ''Teleregulation''"

record DataPoint =
  Address :: go_int
  Description :: string
  Timestamp :: go_time

record 'f64 TelemetryPoint = DataPoint +
  Value :: 'f64

record TeleindPoint = DataPoint +
  Value :: bool

record TelecontrolPoint = DataPoint +
  Value :: bool

record 'f64 TeleregulationPoint = DataPoint +
  Value :: 'f64

section \<open>The client and what it does to the outside\<close>

type_synonym handler = nat

text \<open>
  The struct \<open>IEC104Client\<close>.  A registered callback is \<open>Some h\<close>, \<open>nil\<close> is \<open>None\<close>.
  The mutex \<open>mu\<close> is left out: every operation below runs alone, from its first
  statement to its return.  The \<open>Logger\<close> is the one the application installs; a call on
  it is an event.
\<close>

record 'f64 IEC104Client =
  client :: "session option"
  serverIP :: string
  serverPort :: go_int
  commonAddr :: go_int
  closer :: chan
  connectionStateHandler :: "handler option"
  dataHandler :: "handler option"
  Connected :: bool
  Telemetry :: "go_int \<rightharpoonup> 'f64 TelemetryPoint"
  Teleindication :: "go_int \<rightharpoonup> TeleindPoint"
  Telecontrol :: "go_int \<rightharpoonup> TelecontrolPoint"
  Teleregulation :: "go_int \<rightharpoonup> 'f64 TeleregulationPoint"

text \<open>A call into package \<open>asdu\<close> of the library, with the arguments the client passes.\<close>

datatype 'f32 request =
    SingleCmd "session option" TypeID CauseOfTransmission CommonAddr SingleCommandInfo
  | SetpointCmdFloat "session option" TypeID CauseOfTransmission CommonAddr
      "'f32 SetpointCommandFloatInfo"
  | InterrogationCmd "session option" CauseOfTransmission CommonAddr QualifierOfInterrogation

datatype 'f64 data = Float "'f64" | Bool bool

datatype 'f64 arg =
    AStr string | AInt go_int | ABool bool | AFloat "'f64" | AErr go_error | AType TypeID

datatype 'f64 cell = Text string | Float2 "'f64"

text \<open>
  Everything the client does that is seen outside it, in the order it happens: calls into
  the library, sleeps and timers, the start of the scheduler, calls of the registered
  callbacks, lines given to the logger (format and arguments), and the two calls on the
  widgets that the dialogs make (\<open>Float2 v\<close> is the cell text \<open>Sprintf("%.2f", v)\<close>).
\<close>

datatype ('f32, 'f64) event =
    Go_run Duration
  | Sleep Duration
  | Call "'f32 request"
  | NewClient session
  | Start session
  | ClientClose "session option"
  | SendStartDt session
  | ConnectionState handler bool
  | Data handler DataType go_int "'f64 data"
  | Infof string "'f64 arg list"
  | Debugf string "'f64 arg list"
  | NewTimer Duration
  | Reset Duration
  | Stop
  | SetCell go_int go_int "'f64 cell"
  | RemovePage string

record ('f32, 'f64) world =
  cli :: "'f64 IEC104Client"
  trace :: "('f32, 'f64) event list"

text \<open>
  What the client cannot decide itself: Go's numeric conversions, and whether a call into
  the library returns an error.  The answer of the library may depend on everything that
  happened before (the trace).
\<close>

record ('f32, 'f64) externals =
  float32 :: "'f64 \<Rightarrow> 'f32"
  float64 :: "'f32 \<Rightarrow> 'f64"
  float64_of_int16 :: "16 word \<Rightarrow> 'f64"
  AddRemoteServer :: "string \<Rightarrow> go_int \<Rightarrow> go_error option"
  StartResult :: "('f32, 'f64) event list \<Rightarrow> session \<Rightarrow> go_error option"
  Send :: "('f32, 'f64) event list \<Rightarrow> 'f32 request \<Rightarrow> go_error option"

definition emit :: "('f32, 'f64) event \<Rightarrow> ('f32, 'f64) world \<Rightarrow> ('f32, 'f64) world" where
  "emit e w = w\<lparr>trace := trace w @ [e]\<rparr>"

definition call ::
  "('f32, 'f64) externals \<Rightarrow> 'f32 request \<Rightarrow> ('f32, 'f64) world
    \<Rightarrow> go_error option \<times> ('f32, 'f64) world" where
  "call X r w = (Send X (trace w) r, emit (Call r) w)"

section \<open>Construction, configuration and callbacks\<close>

text \<open>
  \<open>NewIEC104Client(host, port, commonAddr)\<close>: the four tables are made empty, the stop
  channel is made, and the scheduler is started with \<open>go client.run(time.Second * 15)\<close>.
\<close>

definition NewIEC104Client :: "string \<Rightarrow> go_int \<Rightarrow> go_int \<Rightarrow> ('f32, 'f64) world" where
  "NewIEC104Client host port commonAddr' =
     \<lparr>cli = \<lparr>client = None, serverIP = host, serverPort = port, commonAddr = commonAddr',
              closer = Open, connectionStateHandler = None, dataHandler = None,
              Connected = False, Telemetry = Map.empty, Teleindication = Map.empty,
              Telecontrol = Map.empty, Teleregulation = Map.empty\<rparr>,
      trace = [Go_run (Second * 15)]\<rparr>"

definition UpdateConfig ::
  "string \<Rightarrow> go_int \<Rightarrow> go_int \<Rightarrow> ('f32, 'f64) world \<Rightarrow> ('f32, 'f64) world" where
  "UpdateConfig host port commonAddr' w =
     w\<lparr>cli := (cli w)\<lparr>serverIP := host, serverPort := port, commonAddr := commonAddr'\<rparr>\<rparr>"

definition RegisterConnectionStateHandler ::
  "handler \<Rightarrow> ('f32, 'f64) world \<Rightarrow> ('f32, 'f64) world" where
  "RegisterConnectionStateHandler h w = w\<lparr>cli := (cli w)\<lparr>connectionStateHandler := Some h\<rparr>\<rparr>"

definition RegisterDataHandler :: "handler \<Rightarrow> ('f32, 'f64) world \<Rightarrow> ('f32, 'f64) world" where
  "RegisterDataHandler h w = w\<lparr>cli := (cli w)\<lparr>dataHandler := Some h\<rparr>\<rparr>"

section \<open>Connection lifecycle\<close>

text \<open>
  \<open>Connect\<close>.  The address \<open>Sprintf("%s:%d", serverIP, serverPort)\<close> is kept as the pair
  of its two arguments.  The two closures given to \<open>SetOnConnectHandler\<close> and
  \<open>SetConnectionLostHandler\<close> are \<open>OnConnect\<close> and \<open>ConnectionLost\<close> below; the
  transport runs them on the session it calls them with.
\<close>

definition Connect ::
  "('f32, 'f64) externals \<Rightarrow> ('f32, 'f64) world \<Rightarrow> go_error option \<times> ('f32, 'f64) world" where
  "Connect X w =
     (if Connected (cli w) then (None, w)
      else
        let option = \<lparr>AutoReconnect = True, ReconnectInterval = 5 * Second, RemoteServer = None\<rparr>
        in case AddRemoteServer X (serverIP (cli w)) (serverPort (cli w)) of
             Some err \<Rightarrow> (Some err, w)
           | None \<Rightarrow>
               let s = \<lparr>Option = option\<lparr>RemoteServer :=
                            Some (serverIP (cli w), serverPort (cli w))\<rparr>,
                        LogMode = False\<rparr>;
                   w1 = emit (NewClient s) (w\<lparr>cli := (cli w)\<lparr>client := Some s\<rparr>\<rparr>);
                   err = StartResult X (trace w1) s;
                   w2 = emit (Start s) w1
               in case err of
                    Some e \<Rightarrow> (Some (Errorf ''connect error: '' e), w2)
                  | None \<Rightarrow> (None, w2))"

definition OnConnect :: "session \<Rightarrow> ('f32, 'f64) world \<Rightarrow> ('f32, 'f64) world" where
  "OnConnect s w =
     (let w1 = w\<lparr>cli := (cli w)\<lparr>Connected := True\<rparr>\<rparr>;
          w2 = (case connectionStateHandler (cli w1) of
                  Some h \<Rightarrow> emit (ConnectionState h True) w1
                | None \<Rightarrow> w1);
          w3 = emit (Infof ''Connected to server: %s:%d''
                      [AStr (serverIP (cli w2)), AInt (serverPort (cli w2))]) w2
      in emit (SendStartDt s) w3)"

definition ConnectionLost :: "session \<Rightarrow> ('f32, 'f64) world \<Rightarrow> ('f32, 'f64) world" where
  "ConnectionLost s w =
     (let w1 = w\<lparr>cli := (cli w)\<lparr>Connected := False\<rparr>\<rparr>;
          w2 = (case connectionStateHandler (cli w1) of
                  Some h \<Rightarrow> emit (ConnectionState h False) w1
                | None \<Rightarrow> w1)
      in emit (Infof ''Disconnected from server: %s:%d''
                [AStr (serverIP (cli w2)), AInt (serverPort (cli w2))]) w2)"

definition Disconnect ::
  "('f32, 'f64) world \<Rightarrow> go_error option \<times> ('f32, 'f64) world" where
  "Disconnect w =
     (if \<not> Connected (cli w) \<or> client (cli w) = None then (None, w)
      else
        let w1 = emit (ClientClose (client (cli w))) w
        in (None, w1\<lparr>cli := (cli w1)\<lparr>Connected := False\<rparr>\<rparr>))"

text \<open>
  \<open>Close\<close> has no result; the sum is for the panic of \<open>close(c.closer)\<close>, which ends
  the call before \<open>Disconnect\<close>.
\<close>

definition Close :: "('f32, 'f64) world \<Rightarrow> go_panic + ('f32, 'f64) world" where
  "Close w =
     (case close (closer (cli w)) of
        Inl p \<Rightarrow> Inl p
      | Inr ch \<Rightarrow> Inr (snd (Disconnect (w\<lparr>cli := (cli w)\<lparr>closer := ch\<rparr>\<rparr>))))"

section \<open>Commands\<close>

definition SendTelecontrol ::
  "('f32, 'f64) externals \<Rightarrow> go_int \<Rightarrow> bool \<Rightarrow> ('f32, 'f64) world
    \<Rightarrow> go_error option \<times> ('f32, 'f64) world" where
  "SendTelecontrol X offset val w =
     (if \<not> Connected (cli w) \<or> client (cli w) = None then (Some ErrorNoConnection, w)
      else
        let ioa = offset + 24577;
            (err, w1) = call X (SingleCmd (client (cli w)) C_SC_NA_1
                \<lparr>IsTest = False, IsNegative = False, Cause = Activation\<rparr> 1
                \<lparr>SingleCommandInfo.Ioa = ioa, SingleCommandInfo.Value = val,
                 Qoc = \<lparr>Qual = 0, InSelect = True\<rparr>, SingleCommandInfo.Time = 0\<rparr>) w
        in case err of
             Some e \<Rightarrow> (Some (Errorf ''send Select Command error: '' e), w1)
           | None \<Rightarrow>
               let w2 = emit (Sleep (Millisecond * 200)) w1;
                   (err', w3) = call X (SingleCmd (client (cli w2)) C_SC_NA_1
                       \<lparr>IsTest = False, IsNegative = False, Cause = Activation\<rparr> 1
                       \<lparr>SingleCommandInfo.Ioa = ioa, SingleCommandInfo.Value = val,
                        Qoc = \<lparr>Qual = 0, InSelect = False\<rparr>, SingleCommandInfo.Time = 0\<rparr>) w2
               in case err' of
                    Some e \<Rightarrow> (Some (Errorf ''send Telecontrol Command error: '' e), w3)
                  | None \<Rightarrow> (None, w3))"

definition SendTelemetry ::
  "('f32, 'f64) externals \<Rightarrow> go_int \<Rightarrow> 'f64 \<Rightarrow> ('f32, 'f64) world
    \<Rightarrow> go_error option \<times> ('f32, 'f64) world" where
  "SendTelemetry X offset val w =
     (if \<not> Connected (cli w) \<or> client (cli w) = None then (Some ErrorNoConnection, w)
      else
        let ioa = offset + 25089;
            (err, w1) = call X (SetpointCmdFloat (client (cli w)) C_SE_NC_1
                \<lparr>IsTest = False, IsNegative = False, Cause = Activation\<rparr> 1
                \<lparr>SetpointCommandFloatInfo.Ioa = ioa,
                 SetpointCommandFloatInfo.Value = float32 X val,
                 SetpointCommandFloatInfo.Time = 0\<rparr>) w
        in case err of
             Some e \<Rightarrow> (Some (Errorf ''send Telemetry Command error: '' e), w1)
           | None \<Rightarrow> (None, w1))"

section \<open>Inbound messages\<close>

text \<open>
  The bodies of the \<open>range\<close> loops of \<open>ASDUHandler\<close>: the three loops over measured
  values have the same body, on a value already converted by \<open>float64(d.Value)\<close>.
\<close>

definition telemetry_body ::
  "InfoObjAddr \<Rightarrow> go_time \<Rightarrow> 'f64 \<Rightarrow> ('f32, 'f64) world \<Rightarrow> ('f32, 'f64) world" where
  "telemetry_body ioa t v w =
     (let w1 = w\<lparr>cli := (cli w)\<lparr>Telemetry := (Telemetry (cli w))(ioa \<mapsto>
                  \<lparr>Address = ioa, Description = [], Timestamp = t,
                   TelemetryPoint.Value = v\<rparr>)\<rparr>\<rparr>
      in case dataHandler (cli w1) of
           Some h \<Rightarrow> emit (Data h DT_Telemetry ioa (Float v)) w1
         | None \<Rightarrow> w1)"

definition teleindication_body ::
  "InfoObjAddr \<Rightarrow> go_time \<Rightarrow> bool \<Rightarrow> ('f32, 'f64) world \<Rightarrow> ('f32, 'f64) world" where
  "teleindication_body ioa t v w =
     (let w1 = w\<lparr>cli := (cli w)\<lparr>Teleindication := (Teleindication (cli w))(ioa \<mapsto>
                  \<lparr>Address = ioa, Description = [], Timestamp = t,
                   TeleindPoint.Value = v\<rparr>)\<rparr>\<rparr>
      in case dataHandler (cli w1) of
           Some h \<Rightarrow> emit (Data h DT_Teleindication ioa (Bool v)) w1
         | None \<Rightarrow> w1)"

definition ASDUHandler ::
  "('f32, 'f64) externals \<Rightarrow> 'f32 ASDU \<Rightarrow> ('f32, 'f64) world
    \<Rightarrow> go_error option \<times> ('f32, 'f64) world" where
  "ASDUHandler X a w =
     (if CommonAddr (Identifier a) \<noteq> ucast (commonAddr (cli w)) then (None, w)
      else
        (None,
         case Type (Identifier a) of
           M_ME_NC_1 \<Rightarrow>
             foldl (\<lambda>w d. telemetry_body (InfoObj.Ioa d) (InfoObj.Time d)
                       (float64 X (InfoObj.Value d)) w)
               w (GetMeasuredValueFloat a)
         | M_ME_NA_1 \<Rightarrow>
             foldl (\<lambda>w d. telemetry_body (InfoObj.Ioa d) (InfoObj.Time d)
                       (float64_of_int16 X (InfoObj.Value d)) w)
               w (GetMeasuredValueNormal a)
         | M_ME_ND_1 \<Rightarrow>
             foldl (\<lambda>w d. telemetry_body (InfoObj.Ioa d) (InfoObj.Time d)
                       (float64_of_int16 X (InfoObj.Value d)) w)
               w (GetMeasuredValueNormal a)
         | M_SP_NA_1 \<Rightarrow>
             foldl (\<lambda>w d. teleindication_body (InfoObj.Ioa d) (InfoObj.Time d)
                       (InfoObj.Value d) w)
               w (GetSinglePoint a)
         | M_ME_NB_1 \<Rightarrow>
             foldl (\<lambda>w d. telemetry_body (InfoObj.Ioa d) (InfoObj.Time d)
                       (float64_of_int16 X (InfoObj.Value d)) w)
               w (GetMeasuredValueScaled a)
         | t \<Rightarrow> emit (Debugf ''Invalid ASDU type: %s'' [AType t]) w))"

section \<open>The interrogation scheduler\<close>

definition allCall :: "('f32, 'f64) externals \<Rightarrow> ('f32, 'f64) world \<Rightarrow> ('f32, 'f64) world" where
  "allCall X w =
     (if \<not> Connected (cli w) then w
      else
        let coa = \<lparr>IsTest = False, IsNegative = False, Cause = Activation\<rparr>;
            ca = ucast (commonAddr (cli w));
            (err, w1) = call X (InterrogationCmd (client (cli w)) coa ca QOIStation) w
        in case err of
             Some e \<Rightarrow> emit (Infof ''104 interrogation error = %v'' [AErr e]) w1
           | None \<Rightarrow> w1)"

text \<open>
  The goroutine \<open>run\<close> shares the client with the other threads.  What another thread
  does to the client while the scheduler sleeps or waits in its \<open>select\<close> is an \<open>act\<close>:
  the application calls \<open>Connect\<close>, \<open>Disconnect\<close>, \<open>Close\<close> or \<open>UpdateConfig\<close>, or the
  transport runs one of the two callbacks that \<open>Connect\<close> gave it.  A callback needs a
  transport, and a transport exists only once \<open>Connect\<close> has made a session and stored it
  in \<open>c.client\<close> (nothing ever clears that field), so without a session the two callbacks
  do nothing.  A \<open>Close\<close> that panics ends the program.
\<close>

datatype act =
    ActConnect | ActDisconnect | ActClose | ActUpdateConfig string go_int go_int
  | ActOnConnect | ActConnectionLost

fun perform ::
  "('f32, 'f64) externals \<Rightarrow> act \<Rightarrow> ('f32, 'f64) world \<Rightarrow> go_panic + ('f32, 'f64) world" where
  "perform X ActConnect w = Inr (snd (Connect X w))"
| "perform X ActDisconnect w = Inr (snd (Disconnect w))"
| "perform X ActClose w = Close w"
| "perform X (ActUpdateConfig host port commonAddr') w = Inr (UpdateConfig host port commonAddr' w)"
| "perform X ActOnConnect w =
     Inr (case client (cli w) of None \<Rightarrow> w | Some s \<Rightarrow> OnConnect s w)"
| "perform X ActConnectionLost w =
     Inr (case client (cli w) of None \<Rightarrow> w | Some s \<Rightarrow> ConnectionLost s w)"

fun perform_all ::
  "('f32, 'f64) externals \<Rightarrow> act list \<Rightarrow> ('f32, 'f64) world \<Rightarrow> go_panic + ('f32, 'f64) world" where
  "perform_all X [] w = Inr w"
| "perform_all X (a # as) w =
     (case perform X a w of Inl p \<Rightarrow> Inl p | Inr w' \<Rightarrow> perform_all X as w')"

text \<open>
  The loop of \<open>run\<close> is driven by a list of inputs.  \<open>TimerC\<close>: the timer has expired and
  the \<open>select\<close> takes the case \<open><-timer.C\<close>.  \<open>Closer\<close>: the \<open>select\<close> looks at
  \<open><-c.closer\<close>; that case is ready only when the channel is closed, so on an open channel
  the scheduler goes on waiting.  (When both cases are ready Go picks one of them at
  random: the input says which.)  \<open>Other a\<close>: another thread does \<open>a\<close> while the scheduler
  waits.  The result says where \<open>run\<close> is once the inputs are used up: still waiting in
  the \<open>select\<close>, returned (the deferred \<open>timer.Stop()\<close> runs at the return), or ended with
  the program by a panic of another thread.
\<close>

datatype input = TimerC | Closer | Other act

datatype status = Waiting | Returned | Crashed go_panic

fun run_loop ::
  "('f32, 'f64) externals \<Rightarrow> Duration \<Rightarrow> input list \<Rightarrow> ('f32, 'f64) world
    \<Rightarrow> status \<times> ('f32, 'f64) world" where
  "run_loop X callInterval [] w = (Waiting, w)"
| "run_loop X callInterval (TimerC # ins) w =
     run_loop X callInterval ins (emit (Reset callInterval) (allCall X w))"
| "run_loop X callInterval (Closer # ins) w =
     (if closer (cli w) = Closed then (Returned, emit Stop w)
      else run_loop X callInterval ins w)"
| "run_loop X callInterval (Other a # ins) w =
     (case perform X a w of
        Inl p \<Rightarrow> (Crashed p, w)
      | Inr w' \<Rightarrow> run_loop X callInterval ins w')"

text \<open>
  \<open>run(callInterval)\<close>, started on the client \<open>w\<close>: \<open>early\<close> is what the other threads do
  during the first sleep of 5 seconds, \<open>ins\<close> drives the loop after it.
\<close>

definition run ::
  "('f32, 'f64) externals \<Rightarrow> Duration \<Rightarrow> act list \<Rightarrow> input list \<Rightarrow> ('f32, 'f64) world
    \<Rightarrow> status \<times> ('f32, 'f64) world" where
  "run X callInterval early ins w =
     (let w1 = emit (Sleep (Second * 5)) w
      in case perform_all X early w1 of
           Inl p \<Rightarrow> (Crashed p, w1)
         | Inr w2 \<Rightarrow>
             run_loop X callInterval ins (emit (NewTimer callInterval) (allCall X w2)))"

section \<open>The configuration and the two command dialogs\<close>

record Config =
  IPAddress :: string
  Port :: go_int
  CommonAddress :: go_int
  TelemetryCount :: go_int
  TeleindCount :: go_int
  InterrogationInterval :: go_int
  TelemetryDescriptions :: "go_int \<rightharpoonup> string"
  TeleindDescriptions :: "go_int \<rightharpoonup> string"

definition NewConfig :: Config where
  "NewConfig =
     \<lparr>IPAddress = ''127.0.0.1'', Port = 2404, CommonAddress = 1, TelemetryCount = 100,
      TeleindCount = 100, InterrogationInterval = 15,
      TelemetryDescriptions = Map.empty, TeleindDescriptions = Map.empty\<rparr>"

text \<open>
  The function given to the button \<open>Send\<close> of \<open>showTelecontrolDialog(row, col)\<close>, with
  the value of the checkbox; and the one of \<open>showTeleregulationDialog(row, col)\<close>, with
  the number read from the input field.  The application's logger is the client's.
\<close>

definition showTelecontrolDialog_Send ::
  "('f32, 'f64) externals \<Rightarrow> go_int \<Rightarrow> go_int \<Rightarrow> bool \<Rightarrow> ('f32, 'f64) world
    \<Rightarrow> ('f32, 'f64) world" where
  "showTelecontrolDialog_Send X row col val w =
     (let index = (row - 1) * 10 + col - 1;
          (err, w1) = SendTelecontrol X index val w;
          w2 = (case err of
                  Some e \<Rightarrow> emit (Infof ''Error sending telecontrol: %v'' [AErr e]) w1
                | None \<Rightarrow>
                    let w3 = emit (Infof ''Telecontrol command sent to address %d, value: %v''
                                    [AInt index, ABool val]) w1;
                        v = (if val then ''ON'' else ''OFF'');
                        w4 = emit (SetCell row col (Text v)) w3
                    in w4\<lparr>cli := (cli w4)\<lparr>Telecontrol := (Telecontrol (cli w4))(index \<mapsto>
                           \<lparr>Address = 0, Description = [], Timestamp = 0,
                            TelecontrolPoint.Value = val\<rparr>)\<rparr>\<rparr>)
      in emit (RemovePage ''dialog'') w2)"

definition showTeleregulationDialog_Send ::
  "('f32, 'f64) externals \<Rightarrow> go_int \<Rightarrow> go_int \<Rightarrow> 'f64 \<Rightarrow> ('f32, 'f64) world
    \<Rightarrow> ('f32, 'f64) world" where
  "showTeleregulationDialog_Send X row col val w =
     (let index = (row - 1) * 10 + col - 1;
          (err, w1) = SendTelemetry X index val w;
          w2 = (case err of
                  Some e \<Rightarrow> emit (Infof ''Error sending teleregulation: %v'' [AErr e]) w1
                | None \<Rightarrow>
                    let w3 = emit (Infof ''Teleregulation setpoint sent to address %d, value: %v''
                                    [AInt index, AFloat val]) w1;
                        w4 = emit (SetCell row col (Float2 val)) w3
                    in w4\<lparr>cli := (cli w4)\<lparr>Teleregulation := (Teleregulation (cli w4))(index \<mapsto>
                           \<lparr>Address = 0, Description = [], Timestamp = 0,
                            TeleregulationPoint.Value = val\<rparr>)\<rparr>\<rparr>)
      in emit (RemovePage ''dialog'') w2)"

section \<open>Reading a trace\<close>

text \<open>The calls into the library that a trace holds, in their order.\<close>

fun calls :: "('f32, 'f64) event list \<Rightarrow> 'f32 request list" where
  "calls [] = []"
| "calls (Call r # es) = r # calls es"
| "calls (e # es) = calls es"

text \<open>The timer events of a trace, in their order.\<close>

fun timers :: "('f32, 'f64) event list \<Rightarrow> ('f32, 'f64) event list" where
  "timers [] = []"
| "timers (NewTimer d # es) = NewTimer d # timers es"
| "timers (Reset d # es) = Reset d # timers es"
| "timers (Stop # es) = Stop # timers es"
| "timers (e # es) = timers es"

text \<open>
  A general interrogation of the whole station, given to the library for a session that
  exists: what \<open>allCall\<close> sends.
\<close>

fun station_interrogation :: "'f32 request \<Rightarrow> bool" where
  "station_interrogation (InterrogationCmd (Some s) coa ca qoi) =
     (coa = \<lparr>IsTest = False, IsNegative = False, Cause = Activation\<rparr> \<and> qoi = QOIStation)"
| "station_interrogation r = False"

text \<open>
  The flag \<open>Connected\<close> is set only while the client holds a session.  It is so for a new
  client, and every operation keeps it so.
\<close>

definition session_held :: "('f32, 'f64) world \<Rightarrow> bool" where
  "session_held w = (Connected (cli w) \<longrightarrow> client (cli w) \<noteq> None)"

section \<open>What a handled message leaves behind\<close>

text \<open>
  The telemetry table after every object of \<open>ds\<close> has been stored, in their order, under
  its own wire address (\<open>conv\<close> is the conversion of the value to \<open>float64\<close>), and the
  calls of the data callback that go with them; the same for the teleindication table.
\<close>

definition telemetry_stored ::
  "('v \<Rightarrow> 'f64) \<Rightarrow> 'v InfoObj list \<Rightarrow> (go_int \<rightharpoonup> 'f64 TelemetryPoint)
    \<Rightarrow> (go_int \<rightharpoonup> 'f64 TelemetryPoint)" where
  "telemetry_stored conv ds m =
     foldl (\<lambda>m d. m(InfoObj.Ioa d \<mapsto>
              \<lparr>Address = InfoObj.Ioa d, Description = [], Timestamp = InfoObj.Time d,
               TelemetryPoint.Value = conv (InfoObj.Value d)\<rparr>)) m ds"

definition telemetry_notified ::
  "handler option \<Rightarrow> ('v \<Rightarrow> 'f64) \<Rightarrow> 'v InfoObj list \<Rightarrow> ('f32, 'f64) event list" where
  "telemetry_notified cb conv ds =
     (case cb of
        None \<Rightarrow> []
      | Some h \<Rightarrow> map (\<lambda>d. Data h DT_Telemetry (InfoObj.Ioa d) (Float (conv (InfoObj.Value d)))) ds)"

definition teleindication_stored ::
  "bool InfoObj list \<Rightarrow> (go_int \<rightharpoonup> TeleindPoint) \<Rightarrow> (go_int \<rightharpoonup> TeleindPoint)" where
  "teleindication_stored ds m =
     foldl (\<lambda>m d. m(InfoObj.Ioa d \<mapsto>
              \<lparr>Address = InfoObj.Ioa d, Description = [], Timestamp = InfoObj.Time d,
               TeleindPoint.Value = InfoObj.Value d\<rparr>)) m ds"

definition teleindication_notified ::
  "handler option \<Rightarrow> bool InfoObj list \<Rightarrow> ('f32, 'f64) event list" where
  "teleindication_notified cb ds =
     (case cb of
        None \<Rightarrow> []
      | Some h \<Rightarrow> map (\<lambda>d. Data h DT_Teleindication (InfoObj.Ioa d) (Bool (InfoObj.Value d))) ds)"

text \<open>The wire addresses of all the objects a message holds.\<close>

definition wire_addresses :: "'f32 ASDU \<Rightarrow> InfoObjAddr set" where
  "wire_addresses a =
     InfoObj.Ioa ` set (GetMeasuredValueFloat a) \<union> InfoObj.Ioa ` set (GetMeasuredValueNormal a) \<union>
     InfoObj.Ioa ` set (GetSinglePoint a) \<union> InfoObj.Ioa ` set (GetMeasuredValueScaled a)"

section \<open>Example surroundings\<close>

text \<open>
  A library whose calls all succeed, and one that fails to send a select command.  In
  both, the floating-point numbers are real numbers and the conversions are exact.
\<close>

definition lib_ok :: "(real, real) externals" where
  "lib_ok =
     \<lparr>float32 = (\<lambda>x. x), float64 = (\<lambda>x. x),
      float64_of_int16 = (\<lambda>v. real_of_int (sint v)),
      AddRemoteServer = (\<lambda>host port. None), StartResult = (\<lambda>t s. None),
      Send = (\<lambda>t r. None)\<rparr>"

definition select_fails :: "(real, real) externals" where
  "select_fails =
     lib_ok\<lparr>Send := (\<lambda>t r. case r of
                SingleCmd c ty coa ca i \<Rightarrow>
                  if InSelect (Qoc i) then Some (LibError ''EOF'') else None
              | _ \<Rightarrow> None)\<rparr>"

definition session0 :: session where
  "session0 =
     \<lparr>Option = \<lparr>AutoReconnect = True, ReconnectInterval = 5000,
                 RemoteServer = Some (''127.0.0.1'', 2404)\<rparr>,
      LogMode = False\<rparr>"

text \<open>
  A client just made, for the common address \<open>ca\<close>; and the same client after
  \<open>Connect\<close> and the transport's on-connect callback, with a data callback registered.
\<close>

definition fresh :: "go_int \<Rightarrow> (real, real) world" where
  "fresh ca = NewIEC104Client ''127.0.0.1'' 2404 ca"

definition online :: "go_int \<Rightarrow> (real, real) world" where
  "online ca = OnConnect session0 (snd (Connect lib_ok (RegisterDataHandler 7 (fresh ca))))"

text \<open>A message of station \<open>ca\<close> with one short-float value 1.5 at the address 100.\<close>

definition float_msg :: "CommonAddr \<Rightarrow> real ASDU" where
  "float_msg ca =
     \<lparr>Identifier = \<lparr>Type = M_ME_NC_1, CommonAddr = ca\<rparr>,
      GetMeasuredValueFloat = [\<lparr>InfoObj.Ioa = 100, InfoObj.Value = 3 / 2, InfoObj.Time = 0\<rparr>],
      GetMeasuredValueNormal = [], GetSinglePoint = [], GetMeasuredValueScaled = []\<rparr>"

section \<open>Facts about traces\<close>

lemma calls_append: "calls (es @ fs) = calls es @ calls fs"
  by (induction es rule: calls.induct) simp_all

lemma timers_append: "timers (es @ fs) = timers es @ timers fs"
  by (induction es rule: timers.induct) simp_all

section \<open>Facts about the examples\<close>

lemma online_Connected: "Connected (cli (online ca))"
  by (simp add: online_def OnConnect_def Let_def emit_def split: option.split)

lemma online_client: "client (cli (online ca)) = Some session0"
  by (simp add: online_def OnConnect_def Connect_def fresh_def NewIEC104Client_def
      RegisterDataHandler_def lib_ok_def emit_def Let_def session0_def Second_def
      Millisecond_def)

lemma online_commonAddr: "commonAddr (cli (online ca)) = ca"
  by (simp add: online_def OnConnect_def Connect_def fresh_def NewIEC104Client_def
      RegisterDataHandler_def lib_ok_def emit_def Let_def)

lemma online_dataHandler: "dataHandler (cli (online ca)) = Some 7"
  by (simp add: online_def OnConnect_def Connect_def fresh_def NewIEC104Client_def
      RegisterDataHandler_def lib_ok_def emit_def Let_def)

lemma online_Telemetry: "Telemetry (cli (online ca)) = Map.empty"
  by (simp add: online_def OnConnect_def Connect_def fresh_def NewIEC104Client_def
      RegisterDataHandler_def lib_ok_def emit_def Let_def)

lemma online_calls: "calls (trace (online ca)) = []"
  by (simp add: online_def OnConnect_def Connect_def fresh_def NewIEC104Client_def
      RegisterDataHandler_def lib_ok_def emit_def Let_def)

lemma online_Telecontrol: "Telecontrol (cli (online ca)) = Map.empty"
  by (simp add: online_def OnConnect_def Connect_def fresh_def NewIEC104Client_def
      RegisterDataHandler_def lib_ok_def emit_def Let_def)

lemma online_timers: "timers (trace (online ca)) = []"
  by (simp add: online_def OnConnect_def Connect_def fresh_def NewIEC104Client_def
      RegisterDataHandler_def lib_ok_def emit_def Let_def)

lemma fresh_Connected: "\<not> Connected (cli (fresh ca))"
  by (simp add: fresh_def NewIEC104Client_def)

section \<open>Commands\<close>

text \<open>
  Claim C1, as the code has it.  With the client connected and a session \<open>s\<close> at hand,
  \<open>SendTelecontrol(offset, v)\<close> computes \<open>ioa = offset + 24577\<close> and gives the library
  the select command (single command, activation, select qualifier set, \<open>ioa\<close>, \<open>v\<close>).
  If the library fails to send it, that error comes back under the context
  \<open>send Select Command error\<close> and nothing else happens: no wait, no second command.
  Otherwise the client sleeps 200 ms and gives the library the execute command (same
  \<open>ioa\<close>, same \<open>v\<close>, select qualifier clear); between the two commands the call does
  nothing but sleep, so it sends nothing to that \<open>ioa\<close> in between.  (Other callers of
  the two send operations wait for the mutex meanwhile; the scheduler takes no mutex and
  may give the library its general interrogation, which is no command for that \<open>ioa\<close>.)
  A failure of the execute command comes back under \<open>send Telecontrol Command error\<close>,
  and the client itself is unchanged.
\<close>

theorem SendTelecontrol_select_then_execute:
  assumes "Connected (cli w)" and "client (cli w) = Some s"
  shows "let ioa = offset + 24577;
             sel = SingleCmd (Some s) C_SC_NA_1
               \<lparr>IsTest = False, IsNegative = False, Cause = Activation\<rparr> 1
               \<lparr>SingleCommandInfo.Ioa = ioa, SingleCommandInfo.Value = v,
                Qoc = \<lparr>Qual = 0, InSelect = True\<rparr>, SingleCommandInfo.Time = 0\<rparr>;
             exe = SingleCmd (Some s) C_SC_NA_1
               \<lparr>IsTest = False, IsNegative = False, Cause = Activation\<rparr> 1
               \<lparr>SingleCommandInfo.Ioa = ioa, SingleCommandInfo.Value = v,
                Qoc = \<lparr>Qual = 0, InSelect = False\<rparr>, SingleCommandInfo.Time = 0\<rparr>
         in SendTelecontrol X offset v w =
            (case Send X (trace w) sel of
               Some e \<Rightarrow>
                 (Some (Errorf ''send Select Command error: '' e),
                  w\<lparr>trace := trace w @ [Call sel]\<rparr>)
             | None \<Rightarrow>
                 (map_option (Errorf ''send Telecontrol Command error: '')
                    (Send X (trace w @ [Call sel, Sleep (Millisecond * 200)]) exe),
                  w\<lparr>trace := trace w @ [Call sel, Sleep (Millisecond * 200), Call exe]\<rparr>))"
  using assms
  by (simp add: SendTelecontrol_def call_def emit_def Let_def split: option.split)

text \<open>
  The theorem at offset 5 and value true, on a connected client and a library that sends
  everything: select for the address 24582, 200 ms, execute for 24582.
\<close>

theorem SendTelecontrol_select_then_execute_witness:
  "SendTelecontrol lib_ok 5 True (online 1) =
     (None,
      (online 1)\<lparr>trace := trace (online 1) @
         [Call (SingleCmd (Some session0) C_SC_NA_1
            \<lparr>IsTest = False, IsNegative = False, Cause = Activation\<rparr> 1
            \<lparr>SingleCommandInfo.Ioa = 24582, SingleCommandInfo.Value = True,
             Qoc = \<lparr>Qual = 0, InSelect = True\<rparr>, SingleCommandInfo.Time = 0\<rparr>),
          Sleep 200,
          Call (SingleCmd (Some session0) C_SC_NA_1
            \<lparr>IsTest = False, IsNegative = False, Cause = Activation\<rparr> 1
            \<lparr>SingleCommandInfo.Ioa = 24582, SingleCommandInfo.Value = True,
             Qoc = \<lparr>Qual = 0, InSelect = False\<rparr>, SingleCommandInfo.Time = 0\<rparr>)]\<rparr>)"
  using SendTelecontrol_select_then_execute
    [OF online_Connected online_client, where offset = 5 and v = True and X = lib_ok and ca1 = 1]
  by (simp add: lib_ok_def Millisecond_def)

text \<open>
  Claim C1 as it is written says that a connected client always issues exactly two
  commands.  On a connected client whose library fails to send the select command, the
  call returns the select error and the whole run has issued one command only.
\<close>

theorem SendTelecontrol_select_failure_sends_once:
  "fst (SendTelecontrol select_fails 5 True (online 1)) =
     Some (Errorf ''send Select Command error: '' (LibError ''EOF'')) \<and>
   calls (trace (snd (SendTelecontrol select_fails 5 True (online 1)))) =
     [SingleCmd (Some session0) C_SC_NA_1
        \<lparr>IsTest = False, IsNegative = False, Cause = Activation\<rparr> 1
        \<lparr>SingleCommandInfo.Ioa = 24582, SingleCommandInfo.Value = True,
         Qoc = \<lparr>Qual = 0, InSelect = True\<rparr>, SingleCommandInfo.Time = 0\<rparr>]"
  by (simp add: SendTelecontrol_def online_Connected online_client online_calls call_def
      emit_def select_fails_def lib_ok_def calls_append)

text \<open>
  Claim C2.  With the client connected and a session \<open>s\<close> at hand,
  \<open>SendTelemetry(offset, v)\<close> gives the library exactly one command: a setpoint command
  (short float, activation) for \<open>ioa = offset + 25089\<close> that carries \<open>float32(v)\<close>.  There
  is no select command and no wait; the client itself is unchanged, and an error of the
  library comes back under \<open>send Telemetry Command error\<close>.
\<close>

theorem SendTelemetry_one_setpoint:
  assumes "Connected (cli w)" and "client (cli w) = Some s"
  shows "SendTelemetry X offset v w =
     (map_option (Errorf ''send Telemetry Command error: '')
        (Send X (trace w) (SetpointCmdFloat (Some s) C_SE_NC_1
            \<lparr>IsTest = False, IsNegative = False, Cause = Activation\<rparr> 1
            \<lparr>SetpointCommandFloatInfo.Ioa = offset + 25089,
             SetpointCommandFloatInfo.Value = float32 X v,
             SetpointCommandFloatInfo.Time = 0\<rparr>)),
      w\<lparr>trace := trace w @ [Call (SetpointCmdFloat (Some s) C_SE_NC_1
            \<lparr>IsTest = False, IsNegative = False, Cause = Activation\<rparr> 1
            \<lparr>SetpointCommandFloatInfo.Ioa = offset + 25089,
             SetpointCommandFloatInfo.Value = float32 X v,
             SetpointCommandFloatInfo.Time = 0\<rparr>)]\<rparr>)"
  using assms by (simp add: SendTelemetry_def call_def emit_def Let_def split: option.split)

theorem SendTelemetry_one_setpoint_witness:
  "SendTelemetry lib_ok 3 (5 / 2) (online 1) =
     (None,
      (online 1)\<lparr>trace := trace (online 1) @ [Call (SetpointCmdFloat (Some session0) C_SE_NC_1
            \<lparr>IsTest = False, IsNegative = False, Cause = Activation\<rparr> 1
            \<lparr>SetpointCommandFloatInfo.Ioa = 25092,
             SetpointCommandFloatInfo.Value = 5 / 2,
             SetpointCommandFloatInfo.Time = 0\<rparr>)]\<rparr>)"
  using SendTelemetry_one_setpoint
    [OF online_Connected online_client, where offset = 3 and v = "5 / 2" and X = lib_ok
      and ca1 = 1]
  by (simp add: lib_ok_def)

text \<open>
  Claim C3.  When the flag \<open>Connected\<close> is clear, or no session exists yet, both
  \<open>SendTelecontrol\<close> and \<open>SendTelemetry\<close> return \<open>ErrorNoConnection\<close>; the client and
  the trace are what they were, so nothing was given to the library.
\<close>

theorem send_without_connection:
  "\<not> Connected (cli w) \<or> client (cli w) = None \<Longrightarrow>
     SendTelecontrol X offset b w = (Some ErrorNoConnection, w) \<and>
     SendTelemetry X offset v w = (Some ErrorNoConnection, w)"
  by (simp add: SendTelecontrol_def SendTelemetry_def)

theorem send_without_connection_witness:
  "SendTelecontrol lib_ok 5 True (fresh 1) = (Some ErrorNoConnection, fresh 1) \<and>
   SendTelemetry lib_ok 5 (3 / 2) (fresh 1) = (Some ErrorNoConnection, fresh 1)"
  using send_without_connection [where w = "fresh 1" and X = lib_ok]
  by (simp add: fresh_Connected)

section \<open>Inbound messages\<close>

lemma telemetry_body_eq:
  "telemetry_body ioa t v w =
     w\<lparr>cli := (cli w)\<lparr>Telemetry := (Telemetry (cli w))(ioa \<mapsto>
            \<lparr>Address = ioa, Description = [], Timestamp = t, TelemetryPoint.Value = v\<rparr>)\<rparr>,
       trace := trace w @ (case dataHandler (cli w) of None \<Rightarrow> []
                           | Some h \<Rightarrow> [Data h DT_Telemetry ioa (Float v)])\<rparr>"
  by (simp add: telemetry_body_def emit_def Let_def split: option.split)

lemma foldl_telemetry_body:
  "foldl (\<lambda>w d. telemetry_body (InfoObj.Ioa d) (InfoObj.Time d) (conv (InfoObj.Value d)) w) w ds =
     w\<lparr>cli := (cli w)\<lparr>Telemetry := telemetry_stored conv ds (Telemetry (cli w))\<rparr>,
       trace := trace w @ telemetry_notified (dataHandler (cli w)) conv ds\<rparr>"
proof (induction ds arbitrary: w)
  case Nil
  show ?case
    by (simp add: telemetry_stored_def telemetry_notified_def split: option.split)
next
  case (Cons d ds)
  show ?case
    apply (simp only: foldl_Cons)
    apply (subst Cons.IH)
    apply (simp add: telemetry_body_eq telemetry_stored_def telemetry_notified_def
        split: option.split)
    done
qed

lemma teleindication_body_eq:
  "teleindication_body ioa t v w =
     w\<lparr>cli := (cli w)\<lparr>Teleindication := (Teleindication (cli w))(ioa \<mapsto>
            \<lparr>Address = ioa, Description = [], Timestamp = t, TeleindPoint.Value = v\<rparr>)\<rparr>,
       trace := trace w @ (case dataHandler (cli w) of None \<Rightarrow> []
                           | Some h \<Rightarrow> [Data h DT_Teleindication ioa (Bool v)])\<rparr>"
  by (simp add: teleindication_body_def emit_def Let_def split: option.split)

lemma foldl_teleindication_body:
  "foldl (\<lambda>w d. teleindication_body (InfoObj.Ioa d) (InfoObj.Time d) (InfoObj.Value d) w) w ds =
     w\<lparr>cli := (cli w)\<lparr>Teleindication := teleindication_stored ds (Teleindication (cli w))\<rparr>,
       trace := trace w @ teleindication_notified (dataHandler (cli w)) ds\<rparr>"
proof (induction ds arbitrary: w)
  case Nil
  show ?case
    by (simp add: teleindication_stored_def teleindication_notified_def split: option.split)
next
  case (Cons d ds)
  show ?case
    apply (simp only: foldl_Cons)
    apply (subst Cons.IH)
    apply (simp add: teleindication_body_eq teleindication_stored_def
        teleindication_notified_def split: option.split)
    done
qed

lemma ASDUHandler_eq:
  assumes "CommonAddr (Identifier a) = ucast (commonAddr (cli w))"
  shows "ASDUHandler X a w =
     (None,
      case Type (Identifier a) of
        M_ME_NC_1 \<Rightarrow>
          w\<lparr>cli := (cli w)\<lparr>Telemetry :=
                 telemetry_stored (float64 X) (GetMeasuredValueFloat a) (Telemetry (cli w))\<rparr>,
            trace := trace w @
                 telemetry_notified (dataHandler (cli w)) (float64 X) (GetMeasuredValueFloat a)\<rparr>
      | M_ME_NA_1 \<Rightarrow>
          w\<lparr>cli := (cli w)\<lparr>Telemetry :=
                 telemetry_stored (float64_of_int16 X) (GetMeasuredValueNormal a)
                   (Telemetry (cli w))\<rparr>,
            trace := trace w @
                 telemetry_notified (dataHandler (cli w)) (float64_of_int16 X)
                   (GetMeasuredValueNormal a)\<rparr>
      | M_ME_ND_1 \<Rightarrow>
          w\<lparr>cli := (cli w)\<lparr>Telemetry :=
                 telemetry_stored (float64_of_int16 X) (GetMeasuredValueNormal a)
                   (Telemetry (cli w))\<rparr>,
            trace := trace w @
                 telemetry_notified (dataHandler (cli w)) (float64_of_int16 X)
                   (GetMeasuredValueNormal a)\<rparr>
      | M_ME_NB_1 \<Rightarrow>
          w\<lparr>cli := (cli w)\<lparr>Telemetry :=
                 telemetry_stored (float64_of_int16 X) (GetMeasuredValueScaled a)
                   (Telemetry (cli w))\<rparr>,
            trace := trace w @
                 telemetry_notified (dataHandler (cli w)) (float64_of_int16 X)
                   (GetMeasuredValueScaled a)\<rparr>
      | M_SP_NA_1 \<Rightarrow>
          w\<lparr>cli := (cli w)\<lparr>Teleindication :=
                 teleindication_stored (GetSinglePoint a) (Teleindication (cli w))\<rparr>,
            trace := trace w @ teleindication_notified (dataHandler (cli w)) (GetSinglePoint a)\<rparr>
      | t \<Rightarrow> w\<lparr>trace := trace w @ [Debugf ''Invalid ASDU type: %s'' [AType t]]\<rparr>)"
  using assms
  by (simp add: ASDUHandler_def foldl_telemetry_body foldl_teleindication_body emit_def
      split: TypeID.split)

text \<open>
  Claim C4, as the code has it.  A message whose common address is the configured one (at
  the 16 bits of the wire) is dispatched on its type; the result is never an error.
  Short-float values (\<open>M_ME_NC_1\<close>), normalized values (\<open>M_ME_NA_1\<close>, \<open>M_ME_ND_1\<close>) and
  scaled values (\<open>M_ME_NB_1\<close>) are converted to \<open>float64\<close> and stored, one after the
  other, in the telemetry table under their wire address, each followed by a call
  \<open>(Telemetry, address, value)\<close> of the data callback when one is registered.
  Single-point values (\<open>M_SP_NA_1\<close>) go to the teleindication table in the same way, with
  calls \<open>(Teleindication, address, bool)\<close>.  For every other type the message is given to
  \<open>Debugf\<close> and nothing is stored.  Nothing else of the client changes.
\<close>

theorem ASDUHandler_dispatch:
  assumes "CommonAddr (Identifier a) = ucast (commonAddr (cli w))"
  shows "ASDUHandler X a w =
     (None,
      case Type (Identifier a) of
        M_ME_NC_1 \<Rightarrow>
          w\<lparr>cli := (cli w)\<lparr>Telemetry :=
                 telemetry_stored (float64 X) (GetMeasuredValueFloat a) (Telemetry (cli w))\<rparr>,
            trace := trace w @
                 telemetry_notified (dataHandler (cli w)) (float64 X) (GetMeasuredValueFloat a)\<rparr>
      | M_ME_NA_1 \<Rightarrow>
          w\<lparr>cli := (cli w)\<lparr>Telemetry :=
                 telemetry_stored (float64_of_int16 X) (GetMeasuredValueNormal a)
                   (Telemetry (cli w))\<rparr>,
            trace := trace w @
                 telemetry_notified (dataHandler (cli w)) (float64_of_int16 X)
                   (GetMeasuredValueNormal a)\<rparr>
      | M_ME_ND_1 \<Rightarrow>
          w\<lparr>cli := (cli w)\<lparr>Telemetry :=
                 telemetry_stored (float64_of_int16 X) (GetMeasuredValueNormal a)
                   (Telemetry (cli w))\<rparr>,
            trace := trace w @
                 telemetry_notified (dataHandler (cli w)) (float64_of_int16 X)
                   (GetMeasuredValueNormal a)\<rparr>
      | M_ME_NB_1 \<Rightarrow>
          w\<lparr>cli := (cli w)\<lparr>Telemetry :=
                 telemetry_stored (float64_of_int16 X) (GetMeasuredValueScaled a)
                   (Telemetry (cli w))\<rparr>,
            trace := trace w @
                 telemetry_notified (dataHandler (cli w)) (float64_of_int16 X)
                   (GetMeasuredValueScaled a)\<rparr>
      | M_SP_NA_1 \<Rightarrow>
          w\<lparr>cli := (cli w)\<lparr>Teleindication :=
                 teleindication_stored (GetSinglePoint a) (Teleindication (cli w))\<rparr>,
            trace := trace w @ teleindication_notified (dataHandler (cli w)) (GetSinglePoint a)\<rparr>
      | t \<Rightarrow> w\<lparr>trace := trace w @ [Debugf ''Invalid ASDU type: %s'' [AType t]]\<rparr>)"
  using assms by (rule ASDUHandler_eq)

theorem ASDUHandler_dispatch_witness:
  "ASDUHandler lib_ok (float_msg 1) (online 1) =
     (None,
      (online 1)\<lparr>cli := (cli (online 1))\<lparr>Telemetry :=
           [100 \<mapsto> \<lparr>Address = 100, Description = [], Timestamp = 0,
                     TelemetryPoint.Value = 3 / 2\<rparr>]\<rparr>,
         trace := trace (online 1) @ [Data 7 DT_Telemetry 100 (Float (3 / 2))]\<rparr>)"
  using ASDUHandler_dispatch [where a = "float_msg 1" and w = "online 1" and X = lib_ok]
  by (simp add: float_msg_def online_commonAddr online_Telemetry online_dataHandler
      telemetry_stored_def telemetry_notified_def lib_ok_def)

text \<open>
  Claim C4 as it is written speaks of every decoded message.  A short-float message of
  station 2 given to a client configured for station 1 is not stored: the client and the
  trace stay as they were, and the telemetry table has nothing at the address 100.
\<close>

theorem ASDUHandler_other_station_not_dispatched:
  "ASDUHandler lib_ok (float_msg 2) (online 1) = (None, online 1) \<and>
   Type (Identifier (float_msg 2)) = M_ME_NC_1 \<and>
   Telemetry (cli (online 1)) 100 = None"
  by (simp add: ASDUHandler_def float_msg_def online_commonAddr online_Telemetry)

lemma ucast_in_range:
  fixes x :: go_int
  assumes "uint x < 65536"
  shows "uint (ucast x :: 16 word) = uint x"
proof -
  have "uint (ucast x :: 16 word) = take_bit 16 (uint x)"
    by (simp add: unsigned_ucast_eq)
  also have "\<dots> = uint x"
    using assms by (simp add: take_bit_int_eq_self)
  finally show ?thesis .
qed

text \<open>
  Claim C5, as the code has it.  The code compares at the type of the wire: the configured
  \<open>int\<close> is narrowed to the 16 bits of \<open>asdu.CommonAddr\<close>.  A message whose common address
  differs from the narrowed configured one is dropped as a whole: \<open>ASDUHandler\<close> returns
  no error and leaves the client (all four tables) and the trace (no call of the data
  callback, no log line) as they were, whatever the message holds.  For a configured value
  in \<open>0..65535\<close> the narrowing changes nothing, and a message whose common address differs
  from the configured number is dropped.
\<close>

theorem ASDUHandler_drops_other_station:
  "(CommonAddr (Identifier a) \<noteq> ucast (commonAddr (cli w)) \<longrightarrow>
      ASDUHandler X a w = (None, w)) \<and>
   (uint (commonAddr (cli w)) < 65536 \<longrightarrow>
    uint (CommonAddr (Identifier a)) \<noteq> uint (commonAddr (cli w)) \<longrightarrow>
      ASDUHandler X a w = (None, w))"
proof (intro conjI impI)
  assume "CommonAddr (Identifier a) \<noteq> ucast (commonAddr (cli w))"
  then show "ASDUHandler X a w = (None, w)"
    by (simp add: ASDUHandler_def)
next
  assume range: "uint (commonAddr (cli w)) < 65536"
    and differ: "uint (CommonAddr (Identifier a)) \<noteq> uint (commonAddr (cli w))"
  have "CommonAddr (Identifier a) \<noteq> ucast (commonAddr (cli w))"
  proof
    assume "CommonAddr (Identifier a) = ucast (commonAddr (cli w))"
    then have "uint (CommonAddr (Identifier a)) = uint (ucast (commonAddr (cli w)) :: 16 word)"
      by simp
    with ucast_in_range [OF range] differ show False
      by simp
  qed
  then show "ASDUHandler X a w = (None, w)"
    by (simp add: ASDUHandler_def)
qed

theorem ASDUHandler_drops_other_station_witness:
  "CommonAddr (Identifier (float_msg 2)) \<noteq> ucast (commonAddr (cli (online 1))) \<and>
   ASDUHandler lib_ok (float_msg 2) (online 1) = (None, online 1)"
proof -
  have differ: "CommonAddr (Identifier (float_msg 2)) \<noteq> ucast (commonAddr (cli (online 1)))"
    by (simp add: float_msg_def online_commonAddr)
  from ASDUHandler_drops_other_station
    [where a = "float_msg 2" and w = "online 1" and X = lib_ok] differ
  show ?thesis by blast
qed

text \<open>
  Claim C5 as it is written compares the two numbers.  With 65537 configured, a short-float
  message of station 1 has a different common address, yet 65537 narrowed to 16 bits is 1:
  the message is stored and the data callback is called.
\<close>

theorem ASDUHandler_stores_narrowed_station:
  "uint (CommonAddr (Identifier (float_msg 1))) \<noteq> uint (commonAddr (cli (online 65537))) \<and>
   ASDUHandler lib_ok (float_msg 1) (online 65537) =
     (None,
      (online 65537)\<lparr>cli := (cli (online 65537))\<lparr>Telemetry :=
           [100 \<mapsto> \<lparr>Address = 100, Description = [], Timestamp = 0,
                     TelemetryPoint.Value = 3 / 2\<rparr>]\<rparr>,
         trace := trace (online 65537) @ [Data 7 DT_Telemetry 100 (Float (3 / 2))]\<rparr>)"
proof -
  have differ: "uint (CommonAddr (Identifier (float_msg 1))) \<noteq>
      uint (commonAddr (cli (online 65537)))"
    by (simp add: float_msg_def online_commonAddr)
  have station: "CommonAddr (Identifier (float_msg 1)) = ucast (commonAddr (cli (online 65537)))"
    by (simp add: float_msg_def online_commonAddr)
  have "ASDUHandler lib_ok (float_msg 1) (online 65537) =
     (None,
      (online 65537)\<lparr>cli := (cli (online 65537))\<lparr>Telemetry :=
           [100 \<mapsto> \<lparr>Address = 100, Description = [], Timestamp = 0,
                     TelemetryPoint.Value = 3 / 2\<rparr>]\<rparr>,
         trace := trace (online 65537) @ [Data 7 DT_Telemetry 100 (Float (3 / 2))]\<rparr>)"
    using ASDUHandler_eq [OF station, of lib_ok]
    by (simp add: float_msg_def online_Telemetry online_dataHandler telemetry_stored_def
        telemetry_notified_def lib_ok_def)
  with differ show ?thesis
    by (rule conjI)
qed

section \<open>Connection lifecycle\<close>

lemma online_closer: "closer (cli (online ca)) = Open"
  by (simp add: online_def OnConnect_def Connect_def fresh_def NewIEC104Client_def
      RegisterDataHandler_def lib_ok_def emit_def Let_def)

text \<open>
  Claim C8.  \<open>Connect\<close> on a client whose flag \<open>Connected\<close> is set returns \<open>nil\<close> and
  changes nothing: no session is made and no callback is called (the trace is the same).
  \<open>Disconnect\<close> never returns an error; called a second time, or with no session, it
  returns \<open>nil\<close> and changes nothing, so it causes no further notification.
\<close>

theorem Connect_Disconnect_idempotent:
  "(Connected (cli w) \<longrightarrow> Connect X w = (None, w)) \<and>
   fst (Disconnect w) = None \<and>
   Disconnect (snd (Disconnect w)) = (None, snd (Disconnect w)) \<and>
   (client (cli w) = None \<longrightarrow> Disconnect w = (None, w))"
  by (auto simp: Connect_def Disconnect_def emit_def Let_def)

theorem Connect_Disconnect_idempotent_witness:
  "Connect lib_ok (online 1) = (None, online 1) \<and>
   Disconnect (online 1) =
     (None, (online 1)\<lparr>cli := (cli (online 1))\<lparr>Connected := False\<rparr>,
                       trace := trace (online 1) @ [ClientClose (Some session0)]\<rparr>) \<and>
   Disconnect (snd (Disconnect (online 1))) = (None, snd (Disconnect (online 1))) \<and>
   Disconnect (fresh 1) = (None, fresh 1)"
  using Connect_Disconnect_idempotent [where w = "online 1" and X = lib_ok]
    Connect_Disconnect_idempotent [where w = "fresh 1" and X = lib_ok]
  by (simp add: online_Connected online_client Disconnect_def emit_def fresh_def
      NewIEC104Client_def)

text \<open>
  Claim C9.  A new client has its stop channel open.  On a client whose stop channel is
  open, \<open>Close\<close> closes the channel, which is the stop signal of the scheduler, and then
  does what \<open>Disconnect\<close> does.  The channel stays closed, and a second \<open>Close\<close>
  panics at \<open>close(c.closer)\<close>: it returns nothing and does not reach \<open>Disconnect\<close>.
  So does every \<open>Close\<close> on a client whose channel is closed.
\<close>

theorem Close_twice_panics:
  "closer (cli (NewIEC104Client host port ca :: ('f32, 'f64) world)) = Open \<and>
   (closer (cli w) = Open \<longrightarrow>
      Close w = Inr (snd (Disconnect (w\<lparr>cli := (cli w)\<lparr>closer := Closed\<rparr>\<rparr>))) \<and>
      closer (cli (snd (Disconnect (w\<lparr>cli := (cli w)\<lparr>closer := Closed\<rparr>\<rparr>)))) = Closed \<and>
      Close (snd (Disconnect (w\<lparr>cli := (cli w)\<lparr>closer := Closed\<rparr>\<rparr>))) = Inl CloseOfClosedChannel) \<and>
   (closer (cli w) = Closed \<longrightarrow> Close w = Inl CloseOfClosedChannel)"
  by (simp add: Close_def Disconnect_def emit_def Let_def NewIEC104Client_def)

theorem Close_twice_panics_witness:
  "closer (cli (online 1)) = Open \<and>
   Close (online 1) =
     Inr (snd (Disconnect ((online 1)\<lparr>cli := (cli (online 1))\<lparr>closer := Closed\<rparr>\<rparr>))) \<and>
   Close (snd (Disconnect ((online 1)\<lparr>cli := (cli (online 1))\<lparr>closer := Closed\<rparr>\<rparr>))) =
     Inl CloseOfClosedChannel \<and>
   trace (snd (Disconnect ((online 1)\<lparr>cli := (cli (online 1))\<lparr>closer := Closed\<rparr>\<rparr>))) =
     trace (online 1) @ [ClientClose (Some session0)]"
  using Close_twice_panics [where w = "online 1", THEN conjunct2]
  by (simp add: online_closer online_Connected online_client Disconnect_def emit_def)

lemma Connect_session:
  assumes "\<not> Connected (cli w)" and "fst (Connect X w) = None"
  shows "client (cli (snd (Connect X w))) =
           Some \<lparr>Option = \<lparr>AutoReconnect = True, ReconnectInterval = 5 * Second,
                            RemoteServer = Some (serverIP (cli w), serverPort (cli w))\<rparr>,
                  LogMode = False\<rparr> \<and>
         trace (snd (Connect X w)) = trace w @
           [NewClient \<lparr>Option = \<lparr>AutoReconnect = True, ReconnectInterval = 5 * Second,
                            RemoteServer = Some (serverIP (cli w), serverPort (cli w))\<rparr>,
                  LogMode = False\<rparr>,
            Start \<lparr>Option = \<lparr>AutoReconnect = True, ReconnectInterval = 5 * Second,
                            RemoteServer = Some (serverIP (cli w), serverPort (cli w))\<rparr>,
                  LogMode = False\<rparr>]"
  using assms
  by (simp add: Connect_def emit_def Let_def split: option.splits)

lemma OnConnect_client: "client (cli (OnConnect s w)) = client (cli w)"
  by (simp add: OnConnect_def emit_def Let_def split: option.split)

lemma ConnectionLost_client: "client (cli (ConnectionLost s w)) = client (cli w)"
  by (simp add: ConnectionLost_def emit_def Let_def split: option.split)

lemma ConnectionLost_Connected: "\<not> Connected (cli (ConnectionLost s w))"
  by (simp add: ConnectionLost_def emit_def Let_def split: option.split)

lemma OnConnect_no_close:
  "ClientClose c \<in> set (trace (OnConnect s w)) \<longleftrightarrow> ClientClose c \<in> set (trace w)"
  by (auto simp: OnConnect_def emit_def Let_def split: option.split)

lemma ConnectionLost_no_close:
  "ClientClose c \<in> set (trace (ConnectionLost s w)) \<longleftrightarrow> ClientClose c \<in> set (trace w)"
  by (auto simp: ConnectionLost_def emit_def Let_def split: option.split)

text \<open>
  Claim C10.  When the flag \<open>Connected\<close> is clear, \<open>Disconnect\<close> returns \<open>nil\<close> and
  leaves the client and the trace as they were, also when a session exists: the session
  is not closed, and the handle, its options and the four tables are the same.  In
  particular after a successful \<open>Connect\<close>, the transport's on-connect callback and then
  its connection-lost callback: the client still holds the session made by \<open>Connect\<close>,
  with automatic reconnection switched on at an interval of 5 seconds, \<open>Disconnect\<close>
  changes nothing, and no \<open>Close\<close> of a session has been issued since before \<open>Connect\<close>.
\<close>

theorem Disconnect_after_connection_loss:
  "(\<not> Connected (cli w) \<longrightarrow> Disconnect w = (None, w)) \<and>
   (\<not> Connected (cli w) \<longrightarrow> fst (Connect X w) = None \<longrightarrow>
      (let lost = ConnectionLost s (OnConnect s (snd (Connect X w)))
       in (\<exists>s'. client (cli lost) = Some s' \<and> AutoReconnect (Option s') \<and>
                 ReconnectInterval (Option s') = 5 * Second) \<and>
          \<not> Connected (cli lost) \<and>
          Disconnect lost = (None, lost) \<and>
          (\<forall>c. ClientClose c \<in> set (trace lost) \<longrightarrow> ClientClose c \<in> set (trace w))))"
proof (intro conjI impI)
  assume "\<not> Connected (cli w)"
  then show "Disconnect w = (None, w)"
    by (simp add: Disconnect_def)
next
  assume off: "\<not> Connected (cli w)" and ok: "fst (Connect X w) = None"
  define lost where "lost = ConnectionLost s (OnConnect s (snd (Connect X w)))"
  have session: "client (cli lost) =
      Some \<lparr>Option = \<lparr>AutoReconnect = True, ReconnectInterval = 5 * Second,
                       RemoteServer = Some (serverIP (cli w), serverPort (cli w))\<rparr>,
             LogMode = False\<rparr>"
    using Connect_session [OF off ok]
    by (simp add: lost_def ConnectionLost_client OnConnect_client)
  have flag: "\<not> Connected (cli lost)"
    by (simp add: lost_def ConnectionLost_Connected)
  have closes: "\<forall>c. ClientClose c \<in> set (trace lost) \<longrightarrow> ClientClose c \<in> set (trace w)"
    using Connect_session [OF off ok]
    by (simp add: lost_def ConnectionLost_no_close OnConnect_no_close)
  from session flag closes
  show "let lost = ConnectionLost s (OnConnect s (snd (Connect X w)))
       in (\<exists>s'. client (cli lost) = Some s' \<and> AutoReconnect (Option s') \<and>
                 ReconnectInterval (Option s') = 5 * Second) \<and>
          \<not> Connected (cli lost) \<and>
          Disconnect lost = (None, lost) \<and>
          (\<forall>c. ClientClose c \<in> set (trace lost) \<longrightarrow> ClientClose c \<in> set (trace w))"
    unfolding lost_def [symmetric] Let_def
    by (simp add: Disconnect_def)
qed

theorem Disconnect_after_connection_loss_witness:
  "\<not> Connected (cli (fresh 1)) \<and> fst (Connect lib_ok (fresh 1)) = None \<and>
   client (cli (ConnectionLost session0 (OnConnect session0 (snd (Connect lib_ok (fresh 1)))))) =
     Some session0 \<and>
   Disconnect (ConnectionLost session0 (OnConnect session0 (snd (Connect lib_ok (fresh 1))))) =
     (None, ConnectionLost session0 (OnConnect session0 (snd (Connect lib_ok (fresh 1)))))"
proof -
  have off: "\<not> Connected (cli (fresh 1))"
    by (rule fresh_Connected)
  have ok: "fst (Connect lib_ok (fresh 1)) = None"
    by (simp add: Connect_def fresh_def NewIEC104Client_def lib_ok_def emit_def Let_def)
  have handle: "client (cli (snd (Connect lib_ok (fresh 1)))) = Some session0"
    by (simp add: Connect_def fresh_def NewIEC104Client_def lib_ok_def emit_def Let_def
        session0_def Second_def Millisecond_def)
  from Disconnect_after_connection_loss [where w = "fresh 1" and X = lib_ok and s = session0] off ok
  have "Disconnect (ConnectionLost session0 (OnConnect session0 (snd (Connect lib_ok (fresh 1))))) =
     (None, ConnectionLost session0 (OnConnect session0 (snd (Connect lib_ok (fresh 1)))))"
    by (simp add: Let_def)
  with off ok handle show ?thesis
    by (simp add: ConnectionLost_client OnConnect_client)
qed

section \<open>The interrogation scheduler\<close>

text \<open>
  What the model of the scheduler gives.  An attempt (\<open>allCall\<close>) on a disconnected client
  does nothing; on a connected client it gives the library one general interrogation and
  logs an error if the library returns one.  No operation of another thread sets the flag
  \<open>Connected\<close> on a client without a session, so the interrogations of \<open>run\<close> always go
  to a session that exists.  \<open>run\<close> first sleeps 5 seconds, makes one attempt, arms the
  timer with its interval and re-arms it with the same interval after the attempt of each
  round; it returns only on a closed stop channel, never returns while nobody calls
  \<open>Close\<close>, does leave the \<open>select\<close> once the channel is closed and the stop case comes
  up, and handles no input after that.
\<close>

lemma allCall_cli: "cli (allCall X w) = cli w"
  by (simp add: allCall_def call_def emit_def Let_def split: option.split)

lemma allCall_calls:
  "calls (trace (allCall X w)) =
     calls (trace w) @
     (if Connected (cli w)
      then [InterrogationCmd (client (cli w))
              \<lparr>IsTest = False, IsNegative = False, Cause = Activation\<rparr>
              (ucast (commonAddr (cli w))) QOIStation]
      else [])"
  by (simp add: allCall_def call_def emit_def Let_def calls_append split: option.split)

lemma allCall_timers: "timers (trace (allCall X w)) = timers (trace w)"
  by (simp add: allCall_def call_def emit_def Let_def timers_append split: option.split)

lemma allCall_extends: "\<exists>t. trace (allCall X w) = trace w @ t"
  by (simp add: allCall_def call_def emit_def Let_def split: option.split)

lemma allCall_disconnected: "\<not> Connected (cli w) \<Longrightarrow> allCall X w = w"
  by (simp add: allCall_def)

lemma allCall_connected:
  "Connected (cli w) \<Longrightarrow>
      allCall X w =
        (case Send X (trace w) (InterrogationCmd (client (cli w))
                \<lparr>IsTest = False, IsNegative = False, Cause = Activation\<rparr>
                (ucast (commonAddr (cli w))) QOIStation) of
           None \<Rightarrow>
             w\<lparr>trace := trace w @ [Call (InterrogationCmd (client (cli w))
                \<lparr>IsTest = False, IsNegative = False, Cause = Activation\<rparr>
                (ucast (commonAddr (cli w))) QOIStation)]\<rparr>
         | Some e \<Rightarrow>
             w\<lparr>trace := trace w @ [Call (InterrogationCmd (client (cli w))
                \<lparr>IsTest = False, IsNegative = False, Cause = Activation\<rparr>
                (ucast (commonAddr (cli w))) QOIStation),
                Infof ''104 interrogation error = %v'' [AErr e]]\<rparr>)"
  by (simp add: allCall_def call_def emit_def Let_def split: option.split)

lemma perform_cases:
  assumes "perform X a w = Inr w'"
  shows "session_held w \<longrightarrow> session_held w'"
    and "calls (trace w') = calls (trace w)"
    and "timers (trace w') = timers (trace w)"
    and "closer (cli w) = Closed \<longrightarrow> closer (cli w') = Closed"
    and "a \<noteq> ActClose \<longrightarrow> closer (cli w') = closer (cli w)"
    and "\<exists>t. trace w' = trace w @ t"
  using assms
  by (cases a;
      auto simp: session_held_def Connect_def Disconnect_def Close_def UpdateConfig_def
        OnConnect_def ConnectionLost_def emit_def Let_def calls_append timers_append
        split: option.splits if_splits sum.splits chan.splits)+


lemma allCall_held: "session_held (allCall X w) = session_held w"
  by (simp add: session_held_def allCall_cli)

lemma allCall_sends:
  assumes "session_held w"
  shows "\<exists>cs. calls (trace (allCall X w)) = calls (trace w) @ cs \<and> length cs \<le> 1 \<and>
              list_all station_interrogation cs"
proof (cases "Connected (cli w)")
  case False
  then show ?thesis
    by (simp add: allCall_calls)
next
  case True
  with assms obtain s where "client (cli w) = Some s"
    by (auto simp: session_held_def)
  with True show ?thesis
    by (simp add: allCall_calls)
qed

lemma run_loop_rounds:
  assumes "session_held w"
  shows "\<exists>n cs. n \<le> count_list ins TimerC \<and>
           timers (trace (snd (run_loop X d ins w))) =
             timers (trace w) @ replicate n (Reset d) @
             (if fst (run_loop X d ins w) = Returned then [Stop] else []) \<and>
           calls (trace (snd (run_loop X d ins w))) = calls (trace w) @ cs \<and>
           length cs \<le> n \<and> list_all station_interrogation cs \<and>
           session_held (snd (run_loop X d ins w))"
  using assms
proof (induction X d ins w rule: run_loop.induct)
  case (1 X callInterval w)
  then show ?case
    by simp
next
  case (2 X callInterval ins w)
  let ?w1 = "emit (Reset callInterval) (allCall X w)"
  have held: "session_held ?w1"
    using "2.prems" by (simp add: session_held_def emit_def allCall_cli)
  from "2.IH" [OF held] obtain n cs where
    n: "n \<le> count_list ins TimerC"
    and t: "timers (trace (snd (run_loop X callInterval ins ?w1))) =
             timers (trace ?w1) @ replicate n (Reset callInterval) @
             (if fst (run_loop X callInterval ins ?w1) = Returned then [Stop] else [])"
    and c: "calls (trace (snd (run_loop X callInterval ins ?w1))) = calls (trace ?w1) @ cs"
    and l: "length cs \<le> n" and a: "list_all station_interrogation cs"
    and h: "session_held (snd (run_loop X callInterval ins ?w1))"
    by blast
  from allCall_sends [OF "2.prems", of X] obtain c0 where
    c0: "calls (trace (allCall X w)) = calls (trace w) @ c0"
    and l0: "length c0 \<le> 1" and a0: "list_all station_interrogation c0"
    by blast
  have t1: "timers (trace ?w1) = timers (trace w) @ [Reset callInterval]"
    by (simp add: emit_def timers_append allCall_timers)
  have c1: "calls (trace ?w1) = calls (trace w) @ c0"
    by (simp add: emit_def calls_append c0)
  show ?case
  proof (intro exI [of _ "Suc n"] exI [of _ "c0 @ cs"] conjI)
    show "Suc n \<le> count_list (TimerC # ins) TimerC"
      using n by simp
    show "timers (trace (snd (run_loop X callInterval (TimerC # ins) w))) =
        timers (trace w) @ replicate (Suc n) (Reset callInterval) @
        (if fst (run_loop X callInterval (TimerC # ins) w) = Returned then [Stop] else [])"
      using t by (simp add: t1)
    show "calls (trace (snd (run_loop X callInterval (TimerC # ins) w))) =
        calls (trace w) @ c0 @ cs"
      using c by (simp add: c1)
    show "length (c0 @ cs) \<le> Suc n"
      using l l0 by simp
    show "list_all station_interrogation (c0 @ cs)"
      using a a0 by simp
    show "session_held (snd (run_loop X callInterval (TimerC # ins) w))"
      using h by simp
  qed
next
  case (3 X callInterval ins w)
  show ?case
  proof (cases "closer (cli w) = Closed")
    case True
    then show ?thesis
      using "3.prems"
      by (intro exI [of _ 0] exI [of _ "[]"])
        (simp add: emit_def timers_append calls_append session_held_def)
  next
    case False
    from "3.IH" [OF False "3.prems"] obtain n cs where
      "n \<le> count_list ins TimerC"
      "timers (trace (snd (run_loop X callInterval ins w))) =
             timers (trace w) @ replicate n (Reset callInterval) @
             (if fst (run_loop X callInterval ins w) = Returned then [Stop] else [])"
      "calls (trace (snd (run_loop X callInterval ins w))) = calls (trace w) @ cs"
      "length cs \<le> n" "list_all station_interrogation cs"
      "session_held (snd (run_loop X callInterval ins w))"
      by blast
    with False show ?thesis
      by (intro exI [of _ n] exI [of _ cs]) simp
  qed
next
  case (4 X callInterval a ins w)
  show ?case
  proof (cases "perform X a w")
    case (Inl p)
    then show ?thesis
      using "4.prems" by (intro exI [of _ 0] exI [of _ "[]"]) simp
  next
    case (Inr w')
    note facts = perform_cases [OF Inr]
    from facts(1) "4.prems" have held: "session_held w'"
      by simp
    from "4.IH" [OF Inr held] obtain n cs where
      "n \<le> count_list ins TimerC"
      "timers (trace (snd (run_loop X callInterval ins w'))) =
             timers (trace w') @ replicate n (Reset callInterval) @
             (if fst (run_loop X callInterval ins w') = Returned then [Stop] else [])"
      "calls (trace (snd (run_loop X callInterval ins w'))) = calls (trace w') @ cs"
      "length cs \<le> n" "list_all station_interrogation cs"
      "session_held (snd (run_loop X callInterval ins w'))"
      by blast
    with Inr facts(2,3) show ?thesis
      by (intro exI [of _ n] exI [of _ cs]) simp
  qed
qed


lemma run_loop_returns_closed:
  "fst (run_loop X d ins w) = Returned \<Longrightarrow> closer (cli (snd (run_loop X d ins w))) = Closed"
proof (induction X d ins w rule: run_loop.induct)
  case (4 X callInterval a ins w)
  then show ?case
    by (cases "perform X a w") simp_all
qed (simp_all add: emit_def split: if_splits)

lemma run_loop_open_waits:
  "closer (cli w) = Open \<Longrightarrow> Other ActClose \<notin> set ins \<Longrightarrow>
     fst (run_loop X d ins w) = Waiting"
proof (induction X d ins w rule: run_loop.induct)
  case (2 X callInterval ins w)
  then show ?case
    by (simp add: emit_def allCall_cli)
next
  case (4 X callInterval a ins w)
  from "4.prems" have a: "a \<noteq> ActClose"
    by auto
  then obtain w' where w': "perform X a w = Inr w'"
    by (cases a) simp_all
  from perform_cases(5) [OF w'] a "4.prems" have "closer (cli w') = Open"
    by simp
  with "4.IH" [OF w'] "4.prems" w' show ?case
    by simp
qed simp_all

lemma run_loop_closed_stops:
  "closer (cli w) = Closed \<Longrightarrow> Closer \<in> set ins \<Longrightarrow> fst (run_loop X d ins w) \<noteq> Waiting"
proof (induction X d ins w rule: run_loop.induct)
  case (2 X callInterval ins w)
  then show ?case
    by (simp add: emit_def allCall_cli)
next
  case (4 X callInterval a ins w)
  show ?case
  proof (cases "perform X a w")
    case (Inl p)
    then show ?thesis by simp
  next
    case (Inr w')
    from perform_cases(4) [OF Inr] "4.prems" have "closer (cli w') = Closed"
      by simp
    with "4.IH" [OF Inr] "4.prems" Inr show ?thesis
      by simp
  qed
qed simp_all

lemma run_loop_done:
  "fst (run_loop X d ins w) \<noteq> Waiting \<Longrightarrow> run_loop X d (ins @ rest) w = run_loop X d ins w"
proof (induction X d ins w rule: run_loop.induct)
  case (4 X callInterval a ins w)
  then show ?case
    by (cases "perform X a w") simp_all
qed (simp_all split: if_splits)

lemma run_loop_quiet:
  "Connected (cli w) \<Longrightarrow>
     calls (trace (snd (run_loop X d (replicate k TimerC) w))) =
       calls (trace w) @
       replicate k (InterrogationCmd (client (cli w))
          \<lparr>IsTest = False, IsNegative = False, Cause = Activation\<rparr>
          (ucast (commonAddr (cli w))) QOIStation)"
proof (induction k arbitrary: w)
  case 0
  then show ?case by simp
next
  case (Suc k)
  let ?w1 = "emit (Reset d) (allCall X w)"
  have c: "cli ?w1 = cli w"
    by (simp add: emit_def allCall_cli)
  with Suc.prems have "Connected (cli ?w1)"
    by simp
  from Suc.IH [OF this] Suc.prems show ?case
    by (simp add: emit_def calls_append allCall_calls allCall_cli)
qed

lemma run_loop_extends: "\<exists>t. trace (snd (run_loop X d ins w)) = trace w @ t"
proof (induction X d ins w rule: run_loop.induct)
  case (2 X callInterval ins w)
  from allCall_extends obtain t where "trace (allCall X w) = trace w @ t" by blast
  with 2 show ?case by (auto simp: emit_def)
next
  case (4 X callInterval a ins w)
  show ?case
  proof (cases "perform X a w")
    case (Inl p)
    then show ?thesis by simp
  next
    case (Inr w')
    from perform_cases(6) [OF Inr] obtain t where "trace w' = trace w @ t" by blast
    with "4.IH" [OF Inr] Inr show ?thesis by auto
  qed
qed (auto simp: emit_def)

lemma perform_all_cases:
  assumes "perform_all X as w = Inr w'"
  shows "session_held w \<longrightarrow> session_held w'"
    and "calls (trace w') = calls (trace w)"
    and "timers (trace w') = timers (trace w)"
    and "\<exists>t. trace w' = trace w @ t"
  using assms
proof (induction as arbitrary: w)
  case Nil
  {
    case 1 then show ?case by simp
  next
    case 2 then show ?case by simp
  next
    case 3 then show ?case by simp
  next
    case 4 then show ?case by simp
  }
next
  case (Cons a as)
  {
    case 1
    then obtain w1 where a: "perform X a w = Inr w1" and r: "perform_all X as w1 = Inr w'"
      by (auto split: sum.splits)
    from Cons.IH(1) [OF r] perform_cases(1) [OF a] show ?case by simp
  next
    case 2
    then obtain w1 where a: "perform X a w = Inr w1" and r: "perform_all X as w1 = Inr w'"
      by (auto split: sum.splits)
    from Cons.IH(2) [OF r] perform_cases(2) [OF a] show ?case by simp
  next
    case 3
    then obtain w1 where a: "perform X a w = Inr w1" and r: "perform_all X as w1 = Inr w'"
      by (auto split: sum.splits)
    from Cons.IH(3) [OF r] perform_cases(3) [OF a] show ?case by simp
  next
    case 4
    then obtain w1 where a: "perform X a w = Inr w1" and r: "perform_all X as w1 = Inr w'"
      by (auto split: sum.splits)
    from Cons.IH(4) [OF r] perform_cases(6) [OF a] show ?case by auto
  }
qed


lemma NewIEC104Client_held: "session_held (NewIEC104Client host port ca)"
  by (simp add: session_held_def NewIEC104Client_def)

lemma run_first_sleeps:
  "\<exists>t. trace (snd (run X d early ins w)) = trace w @ Sleep (Second * 5) # t"
proof (cases "perform_all X early (emit (Sleep (Second * 5)) w)")
  case (Inl p)
  then show ?thesis
    by (simp add: run_def emit_def)
next
  case (Inr w2)
  from perform_all_cases(4) [OF Inr] obtain t1 where
    t1: "trace w2 = trace w @ Sleep (Second * 5) # t1"
    by (auto simp: emit_def)
  obtain t2 where t2: "trace (allCall X w2) = trace w2 @ t2"
    using allCall_extends by blast
  obtain t3 where t3: "trace (snd (run_loop X d ins (emit (NewTimer d) (allCall X w2)))) =
      trace (emit (NewTimer d) (allCall X w2)) @ t3"
    using run_loop_extends by blast
  show ?thesis
    using Inr t1 t2 t3 by (simp add: run_def emit_def)
qed

lemma run_rounds:
  assumes "session_held w"
    and "perform_all X early (emit (Sleep (Second * 5)) w) = Inr w2"
  shows "\<exists>n cs. n \<le> count_list ins TimerC \<and>
           timers (trace (snd (run X d early ins w))) =
             timers (trace w) @ NewTimer d # replicate n (Reset d) @
             (if fst (run X d early ins w) = Returned then [Stop] else []) \<and>
           calls (trace (snd (run X d early ins w))) = calls (trace w) @ cs \<and>
           length cs \<le> Suc n \<and> list_all station_interrogation cs"
proof -
  let ?w3 = "emit (NewTimer d) (allCall X w2)"
  have r: "run X d early ins w = run_loop X d ins ?w3"
    using assms(2) by (simp add: run_def)
  have "session_held (emit (Sleep (Second * 5)) w)"
    using assms(1) by (simp add: session_held_def emit_def)
  with perform_all_cases(1) [OF assms(2)] have held2: "session_held w2"
    by simp
  then have held3: "session_held ?w3"
    by (simp add: session_held_def emit_def allCall_cli)
  from allCall_sends [OF held2, of X] obtain c0 where
    c0: "calls (trace (allCall X w2)) = calls (trace w2) @ c0"
    and l0: "length c0 \<le> 1" and a0: "list_all station_interrogation c0"
    by blast
  have c3: "calls (trace ?w3) = calls (trace w) @ c0"
    using perform_all_cases(2) [OF assms(2)] by (simp add: emit_def calls_append c0)
  have t3: "timers (trace ?w3) = timers (trace w) @ [NewTimer d]"
    using perform_all_cases(3) [OF assms(2)]
    by (simp add: emit_def timers_append allCall_timers)
  from run_loop_rounds [OF held3, of ins X d] obtain n cs where
    n: "n \<le> count_list ins TimerC"
    and t: "timers (trace (snd (run_loop X d ins ?w3))) =
             timers (trace ?w3) @ replicate n (Reset d) @
             (if fst (run_loop X d ins ?w3) = Returned then [Stop] else [])"
    and c: "calls (trace (snd (run_loop X d ins ?w3))) = calls (trace ?w3) @ cs"
    and l: "length cs \<le> n" and a: "list_all station_interrogation cs"
    by blast
  show ?thesis
  proof (intro exI [of _ n] exI [of _ "c0 @ cs"] conjI)
    show "n \<le> count_list ins TimerC"
      by (rule n)
    show "timers (trace (snd (run X d early ins w))) =
        timers (trace w) @ NewTimer d # replicate n (Reset d) @
        (if fst (run X d early ins w) = Returned then [Stop] else [])"
      unfolding r using t by (simp add: t3)
    show "calls (trace (snd (run X d early ins w))) = calls (trace w) @ c0 @ cs"
      unfolding r using c by (simp add: c3)
    show "length (c0 @ cs) \<le> Suc n"
      using l l0 by simp
    show "list_all station_interrogation (c0 @ cs)"
      using a a0 by simp
  qed
qed

lemma emit_simps:
  "cli (emit e w) = cli w"
  "calls (trace (emit e w)) = calls (trace w) @ calls [e]"
  "timers (trace (emit e w)) = timers (trace w) @ timers [e]"
  by (simp_all add: emit_def calls_append timers_append)

lemma OnConnect_simps:
  "cli (OnConnect s w) = (cli w)\<lparr>Connected := True\<rparr>"
  "calls (trace (OnConnect s w)) = calls (trace w)"
  "timers (trace (OnConnect s w)) = timers (trace w)"
  by (simp_all add: OnConnect_def emit_def Let_def calls_append timers_append
      split: option.split)

lemma ConnectionLost_simps:
  "cli (ConnectionLost s w) = (cli w)\<lparr>Connected := False\<rparr>"
  "calls (trace (ConnectionLost s w)) = calls (trace w)"
  "timers (trace (ConnectionLost s w)) = timers (trace w)"
  by (simp_all add: ConnectionLost_def emit_def Let_def calls_append timers_append
      split: option.split)

lemma Connect_lib_ok:
  "\<not> Connected (cli w) \<Longrightarrow> serverIP (cli w) = ''127.0.0.1'' \<Longrightarrow> serverPort (cli w) = 2404 \<Longrightarrow>
     cli (snd (Connect lib_ok w)) = (cli w)\<lparr>client := Some session0\<rparr> \<and>
     calls (trace (snd (Connect lib_ok w))) = calls (trace w) \<and>
     timers (trace (snd (Connect lib_ok w))) = timers (trace w)"
  by (simp add: Connect_def lib_ok_def emit_def Let_def calls_append timers_append
      session0_def Second_def Millisecond_def)

lemma Close_simps:
  "closer (cli w) = Open \<Longrightarrow>
     Close w = Inr (snd (Disconnect (w\<lparr>cli := (cli w)\<lparr>closer := Closed\<rparr>\<rparr>)))"
  by (simp add: Close_def)

lemma Disconnect_simps:
  "cli (snd (Disconnect w)) =
     (if \<not> Connected (cli w) \<or> client (cli w) = None then cli w
      else (cli w)\<lparr>Connected := False\<rparr>)"
  "calls (trace (snd (Disconnect w))) = calls (trace w)"
  "timers (trace (snd (Disconnect w))) = timers (trace w)"
  by (simp_all add: Disconnect_def emit_def Let_def calls_append timers_append)

lemma run_example:
  "fst (run lib_ok (Second * 15) [ActConnect, ActOnConnect]
         [TimerC, Other ActConnectionLost, TimerC, Other ActOnConnect, TimerC,
          Other ActClose, Closer, TimerC] (fresh 1)) = Returned \<and>
   calls (trace (snd (run lib_ok (Second * 15) [ActConnect, ActOnConnect]
         [TimerC, Other ActConnectionLost, TimerC, Other ActOnConnect, TimerC,
          Other ActClose, Closer, TimerC] (fresh 1)))) =
     replicate 3 (InterrogationCmd (Some session0)
        \<lparr>IsTest = False, IsNegative = False, Cause = Activation\<rparr> 1 QOIStation) \<and>
   timers (trace (snd (run lib_ok (Second * 15) [ActConnect, ActOnConnect]
         [TimerC, Other ActConnectionLost, TimerC, Other ActOnConnect, TimerC,
          Other ActClose, Closer, TimerC] (fresh 1)))) =
     [NewTimer 15000, Reset 15000, Reset 15000, Reset 15000, Stop]"
proof -
  define w1 :: "(real, real) world" where "w1 = emit (Sleep (Second * 5)) (fresh 1)"
  have w1: "cli w1 = cli (fresh 1)" "calls (trace w1) = []" "timers (trace w1) = []"
    by (simp_all add: w1_def emit_simps fresh_def NewIEC104Client_def)
  define w2 where "w2 = OnConnect session0 (snd (Connect lib_ok w1))"
  have early: "perform_all lib_ok [ActConnect, ActOnConnect] w1 = Inr w2"
    using Connect_lib_ok [of w1]
    by (simp add: w2_def w1 fresh_def NewIEC104Client_def)
  have w2: "cli w2 = (cli (fresh 1))\<lparr>client := Some session0, Connected := True\<rparr>"
    "calls (trace w2) = []" "timers (trace w2) = []"
    using Connect_lib_ok [of w1]
    by (simp_all add: w2_def w1 OnConnect_simps fresh_def NewIEC104Client_def)
  define w3 where "w3 = emit (NewTimer (Second * 15)) (allCall lib_ok w2)"
  have r: "run lib_ok (Second * 15) [ActConnect, ActOnConnect] ins (fresh 1) =
      run_loop lib_ok (Second * 15) ins w3" for ins
    unfolding run_def Let_def w1_def [symmetric] early w3_def by simp
  have w3: "cli w3 = (cli (fresh 1))\<lparr>client := Some session0, Connected := True\<rparr>"
    "calls (trace w3) = [InterrogationCmd (Some session0)
        \<lparr>IsTest = False, IsNegative = False, Cause = Activation\<rparr> 1 QOIStation]"
    "timers (trace w3) = [NewTimer 15000]"
    by (simp_all add: w3_def emit_simps allCall_cli allCall_calls allCall_timers w2
        fresh_def NewIEC104Client_def Second_def Millisecond_def)
  show ?thesis
    unfolding r
    by (simp add: w3 emit_simps allCall_cli allCall_calls allCall_timers
        OnConnect_simps ConnectionLost_simps Close_simps Disconnect_simps
        fresh_def NewIEC104Client_def Second_def Millisecond_def numeral_3_eq_3)
qed

text \<open>
  Claim C6 has the scheduler issue its interrogations every \<open>interrogationInterval\<close>
  seconds, a value of the configuration with the default 15.  The setting exists
  (\<open>Config.InterrogationInterval\<close>, default 15, and a field of the configuration dialog),
  but \<open>NewIEC104Client\<close> has no parameter for it and starts \<open>run\<close> with the constant
  \<open>time.Second * 15\<close>.  With a configuration whose interval is 30, the client made from its
  address, port and common address starts the scheduler with 15000 ms, not 30000 ms.
\<close>

theorem run_interval_not_from_config:
  "InterrogationInterval (NewConfig\<lparr>InterrogationInterval := 30\<rparr>) = 30 \<and>
   trace (NewIEC104Client (IPAddress (NewConfig\<lparr>InterrogationInterval := 30\<rparr>))
            (Port (NewConfig\<lparr>InterrogationInterval := 30\<rparr>))
            (CommonAddress (NewConfig\<lparr>InterrogationInterval := 30\<rparr>)) :: (real, real) world) =
     [Go_run 15000] \<and>
   Second * 30 = (30000 :: nat)"
  by (simp add: NewIEC104Client_def NewConfig_def Second_def Millisecond_def)

section \<open>The keys of the four tables\<close>

lemma telemetry_stored_snoc:
  "telemetry_stored conv (ds @ [d]) m =
     (telemetry_stored conv ds m)(InfoObj.Ioa d \<mapsto>
        \<lparr>Address = InfoObj.Ioa d, Description = [], Timestamp = InfoObj.Time d,
         TelemetryPoint.Value = conv (InfoObj.Value d)\<rparr>)"
  by (simp add: telemetry_stored_def)

lemma telemetry_stored_Nil: "telemetry_stored conv [] m = m"
  by (simp add: telemetry_stored_def)

lemma telemetry_stored_keyed:
  "telemetry_stored conv ds m k = Some p \<Longrightarrow>
     m k = Some p \<or> (Address p = k \<and> k \<in> InfoObj.Ioa ` set ds)"
proof (induction ds arbitrary: p rule: rev_induct)
  case Nil
  then show ?case by (simp add: telemetry_stored_Nil)
next
  case (snoc d ds)
  show ?case
  proof (cases "k = InfoObj.Ioa d")
    case True
    with snoc.prems show ?thesis
      by (auto simp: telemetry_stored_snoc)
  next
    case False
    with snoc.prems have "telemetry_stored conv ds m k = Some p"
      by (simp add: telemetry_stored_snoc)
    from snoc.IH [OF this] show ?thesis
      by auto
  qed
qed

lemma telemetry_stored_all:
  "d \<in> set ds \<Longrightarrow>
     \<exists>p. telemetry_stored conv ds m (InfoObj.Ioa d) = Some p \<and> Address p = InfoObj.Ioa d"
proof (induction ds rule: rev_induct)
  case Nil
  then show ?case by simp
next
  case (snoc e ds)
  show ?case
  proof (cases "InfoObj.Ioa d = InfoObj.Ioa e")
    case True
    then show ?thesis
      by (simp add: telemetry_stored_snoc)
  next
    case False
    with snoc.prems have "d \<in> set ds"
      by auto
    from snoc.IH [OF this] False show ?thesis
      by (simp add: telemetry_stored_snoc)
  qed
qed

lemma teleindication_stored_snoc:
  "teleindication_stored (ds @ [d]) m =
     (teleindication_stored ds m)(InfoObj.Ioa d \<mapsto>
        \<lparr>Address = InfoObj.Ioa d, Description = [], Timestamp = InfoObj.Time d,
         TeleindPoint.Value = InfoObj.Value d\<rparr>)"
  by (simp add: teleindication_stored_def)

lemma teleindication_stored_Nil: "teleindication_stored [] m = m"
  by (simp add: teleindication_stored_def)

lemma teleindication_stored_keyed:
  "teleindication_stored ds m k = Some p \<Longrightarrow>
     m k = Some p \<or> (Address p = k \<and> k \<in> InfoObj.Ioa ` set ds)"
proof (induction ds arbitrary: p rule: rev_induct)
  case Nil
  then show ?case by (simp add: teleindication_stored_Nil)
next
  case (snoc d ds)
  show ?case
  proof (cases "k = InfoObj.Ioa d")
    case True
    with snoc.prems show ?thesis
      by (auto simp: teleindication_stored_snoc)
  next
    case False
    with snoc.prems have "teleindication_stored ds m k = Some p"
      by (simp add: teleindication_stored_snoc)
    from snoc.IH [OF this] show ?thesis
      by auto
  qed
qed

lemma teleindication_stored_all:
  "d \<in> set ds \<Longrightarrow>
     \<exists>p. teleindication_stored ds m (InfoObj.Ioa d) = Some p \<and> Address p = InfoObj.Ioa d"
proof (induction ds rule: rev_induct)
  case Nil
  then show ?case by simp
next
  case (snoc e ds)
  show ?case
  proof (cases "InfoObj.Ioa d = InfoObj.Ioa e")
    case True
    then show ?thesis
      by (simp add: teleindication_stored_snoc)
  next
    case False
    with snoc.prems have "d \<in> set ds"
      by auto
    from snoc.IH [OF this] False show ?thesis
      by (simp add: teleindication_stored_snoc)
  qed
qed


lemma ASDUHandler_Telemetry_keyed:
  assumes "Telemetry (cli (snd (ASDUHandler X a w))) k = Some p"
  shows "Telemetry (cli w) k = Some p \<or> (Address p = k \<and> k \<in> wire_addresses a)"
proof (cases "CommonAddr (Identifier a) = ucast (commonAddr (cli w))")
  case False
  with assms show ?thesis
    by (simp add: ASDUHandler_def)
next
  case True
  show ?thesis
  proof (cases "Type (Identifier a)")
    case M_ME_NC_1
    with assms True have "telemetry_stored (float64 X) (GetMeasuredValueFloat a) (Telemetry (cli w)) k = Some p"
      by (simp add: ASDUHandler_eq)
    from telemetry_stored_keyed [OF this] show ?thesis
      by (auto simp: wire_addresses_def)
  next
    case M_ME_NA_1
    with assms True have "telemetry_stored (float64_of_int16 X) (GetMeasuredValueNormal a) (Telemetry (cli w)) k = Some p"
      by (simp add: ASDUHandler_eq)
    from telemetry_stored_keyed [OF this] show ?thesis
      by (auto simp: wire_addresses_def)
  next
    case M_ME_ND_1
    with assms True have "telemetry_stored (float64_of_int16 X) (GetMeasuredValueNormal a) (Telemetry (cli w)) k = Some p"
      by (simp add: ASDUHandler_eq)
    from telemetry_stored_keyed [OF this] show ?thesis
      by (auto simp: wire_addresses_def)
  next
    case M_ME_NB_1
    with assms True have "telemetry_stored (float64_of_int16 X) (GetMeasuredValueScaled a) (Telemetry (cli w)) k = Some p"
      by (simp add: ASDUHandler_eq)
    from telemetry_stored_keyed [OF this] show ?thesis
      by (auto simp: wire_addresses_def)
  qed (use assms True in \<open>simp_all add: ASDUHandler_eq\<close>)
qed

lemma ASDUHandler_Teleindication_keyed:
  assumes "Teleindication (cli (snd (ASDUHandler X a w))) k = Some p"
  shows "Teleindication (cli w) k = Some p \<or> (Address p = k \<and> k \<in> wire_addresses a)"
proof (cases "CommonAddr (Identifier a) = ucast (commonAddr (cli w))")
  case False
  with assms show ?thesis
    by (simp add: ASDUHandler_def)
next
  case True
  show ?thesis
  proof (cases "Type (Identifier a)")
    case M_SP_NA_1
    with assms True have "teleindication_stored (GetSinglePoint a) (Teleindication (cli w)) k = Some p"
      by (simp add: ASDUHandler_eq)
    from teleindication_stored_keyed [OF this] show ?thesis
      by (auto simp: wire_addresses_def)
  qed (use assms True in \<open>simp_all add: ASDUHandler_eq\<close>)
qed

lemma ASDUHandler_command_tables:
  "Telecontrol (cli (snd (ASDUHandler X a w))) = Telecontrol (cli w) \<and>
   Teleregulation (cli (snd (ASDUHandler X a w))) = Teleregulation (cli w)"
proof (cases "CommonAddr (Identifier a) = ucast (commonAddr (cli w))")
  case False
  then show ?thesis
    by (simp add: ASDUHandler_def)
next
  case True
  then show ?thesis
    by (cases "Type (Identifier a)") (simp_all add: ASDUHandler_eq)
qed

lemma SendTelecontrol_ok:
  assumes "fst (SendTelecontrol X offset v w) = None"
  shows "snd (SendTelecontrol X offset v w) =
     w\<lparr>trace := trace w @
        [Call (SingleCmd (client (cli w)) C_SC_NA_1
            \<lparr>IsTest = False, IsNegative = False, Cause = Activation\<rparr> 1
            \<lparr>SingleCommandInfo.Ioa = offset + 24577, SingleCommandInfo.Value = v,
             Qoc = \<lparr>Qual = 0, InSelect = True\<rparr>, SingleCommandInfo.Time = 0\<rparr>),
         Sleep (Millisecond * 200),
         Call (SingleCmd (client (cli w)) C_SC_NA_1
            \<lparr>IsTest = False, IsNegative = False, Cause = Activation\<rparr> 1
            \<lparr>SingleCommandInfo.Ioa = offset + 24577, SingleCommandInfo.Value = v,
             Qoc = \<lparr>Qual = 0, InSelect = False\<rparr>, SingleCommandInfo.Time = 0\<rparr>)]\<rparr>"
  using assms
  by (simp add: SendTelecontrol_def call_def emit_def Let_def split: if_splits option.splits)

lemma SendTelecontrol_cli: "cli (snd (SendTelecontrol X offset v w)) = cli w"
  by (simp add: SendTelecontrol_def call_def emit_def Let_def split: option.splits)

lemma SendTelemetry_ok:
  assumes "fst (SendTelemetry X offset r w) = None"
  shows "snd (SendTelemetry X offset r w) =
     w\<lparr>trace := trace w @
        [Call (SetpointCmdFloat (client (cli w)) C_SE_NC_1
            \<lparr>IsTest = False, IsNegative = False, Cause = Activation\<rparr> 1
            \<lparr>SetpointCommandFloatInfo.Ioa = offset + 25089,
             SetpointCommandFloatInfo.Value = float32 X r,
             SetpointCommandFloatInfo.Time = 0\<rparr>)]\<rparr>"
  using assms
  by (simp add: SendTelemetry_def call_def emit_def Let_def split: if_splits option.splits)

lemma SendTelemetry_cli: "cli (snd (SendTelemetry X offset r w)) = cli w"
  by (simp add: SendTelemetry_def call_def emit_def Let_def split: option.splits)

lemma base_not_zero: "(index :: go_int) + 24577 \<noteq> index" "(index :: go_int) + 25089 \<noteq> index"
  by simp_all


lemma showTelecontrolDialog_Send_ok:
  assumes "fst (SendTelecontrol X ((row - 1) * 10 + col - 1) v w) = None"
  shows "Telecontrol (cli (showTelecontrolDialog_Send X row col v w)) =
           (Telecontrol (cli w))((row - 1) * 10 + col - 1 \<mapsto>
              \<lparr>Address = 0, Description = [], Timestamp = 0, TelecontrolPoint.Value = v\<rparr>)"
    and "calls (trace (showTelecontrolDialog_Send X row col v w)) =
           calls (trace w) @
           [SingleCmd (client (cli w)) C_SC_NA_1
              \<lparr>IsTest = False, IsNegative = False, Cause = Activation\<rparr> 1
              \<lparr>SingleCommandInfo.Ioa = (row - 1) * 10 + col - 1 + 24577,
               SingleCommandInfo.Value = v,
               Qoc = \<lparr>Qual = 0, InSelect = True\<rparr>, SingleCommandInfo.Time = 0\<rparr>,
            SingleCmd (client (cli w)) C_SC_NA_1
              \<lparr>IsTest = False, IsNegative = False, Cause = Activation\<rparr> 1
              \<lparr>SingleCommandInfo.Ioa = (row - 1) * 10 + col - 1 + 24577,
               SingleCommandInfo.Value = v,
               Qoc = \<lparr>Qual = 0, InSelect = False\<rparr>, SingleCommandInfo.Time = 0\<rparr>]"
proof -
  obtain err w1 where r: "SendTelecontrol X ((row - 1) * 10 + col - 1) v w = (err, w1)"
    by (cases "SendTelecontrol X ((row - 1) * 10 + col - 1) v w")
  with assms have err: "err = None"
    by simp
  from SendTelecontrol_ok [OF assms] r have w1: "w1 = w\<lparr>trace := trace w @
        [Call (SingleCmd (client (cli w)) C_SC_NA_1
            \<lparr>IsTest = False, IsNegative = False, Cause = Activation\<rparr> 1
            \<lparr>SingleCommandInfo.Ioa = (row - 1) * 10 + col - 1 + 24577,
             SingleCommandInfo.Value = v,
             Qoc = \<lparr>Qual = 0, InSelect = True\<rparr>, SingleCommandInfo.Time = 0\<rparr>),
         Sleep (Millisecond * 200),
         Call (SingleCmd (client (cli w)) C_SC_NA_1
            \<lparr>IsTest = False, IsNegative = False, Cause = Activation\<rparr> 1
            \<lparr>SingleCommandInfo.Ioa = (row - 1) * 10 + col - 1 + 24577,
             SingleCommandInfo.Value = v,
             Qoc = \<lparr>Qual = 0, InSelect = False\<rparr>, SingleCommandInfo.Time = 0\<rparr>)]\<rparr>"
    by simp
  show "Telecontrol (cli (showTelecontrolDialog_Send X row col v w)) =
           (Telecontrol (cli w))((row - 1) * 10 + col - 1 \<mapsto>
              \<lparr>Address = 0, Description = [], Timestamp = 0, TelecontrolPoint.Value = v\<rparr>)"
    unfolding showTelecontrolDialog_Send_def Let_def r err w1 by (simp add: emit_def)
  show "calls (trace (showTelecontrolDialog_Send X row col v w)) =
           calls (trace w) @
           [SingleCmd (client (cli w)) C_SC_NA_1
              \<lparr>IsTest = False, IsNegative = False, Cause = Activation\<rparr> 1
              \<lparr>SingleCommandInfo.Ioa = (row - 1) * 10 + col - 1 + 24577,
               SingleCommandInfo.Value = v,
               Qoc = \<lparr>Qual = 0, InSelect = True\<rparr>, SingleCommandInfo.Time = 0\<rparr>,
            SingleCmd (client (cli w)) C_SC_NA_1
              \<lparr>IsTest = False, IsNegative = False, Cause = Activation\<rparr> 1
              \<lparr>SingleCommandInfo.Ioa = (row - 1) * 10 + col - 1 + 24577,
               SingleCommandInfo.Value = v,
               Qoc = \<lparr>Qual = 0, InSelect = False\<rparr>, SingleCommandInfo.Time = 0\<rparr>]"
    unfolding showTelecontrolDialog_Send_def Let_def r err w1 by (simp add: emit_def calls_append)
qed

lemma showTelecontrolDialog_Send_failed:
  assumes "fst (SendTelecontrol X ((row - 1) * 10 + col - 1) v w) \<noteq> None"
  shows "Telecontrol (cli (showTelecontrolDialog_Send X row col v w)) = Telecontrol (cli w)"
proof -
  obtain err w1 where r: "SendTelecontrol X ((row - 1) * 10 + col - 1) v w = (err, w1)"
    by (cases "SendTelecontrol X ((row - 1) * 10 + col - 1) v w")
  with assms obtain e where err: "err = Some e"
    by auto
  from SendTelecontrol_cli [of X "(row - 1) * 10 + col - 1" v w] r have "cli w1 = cli w"
    by simp
  then show ?thesis
    unfolding showTelecontrolDialog_Send_def Let_def r err by (simp add: emit_def)
qed

lemma showTeleregulationDialog_Send_ok:
  assumes "fst (SendTelemetry X ((row - 1) * 10 + col - 1) r w) = None"
  shows "Teleregulation (cli (showTeleregulationDialog_Send X row col r w)) =
           (Teleregulation (cli w))((row - 1) * 10 + col - 1 \<mapsto>
              \<lparr>Address = 0, Description = [], Timestamp = 0, TeleregulationPoint.Value = r\<rparr>)"
    and "calls (trace (showTeleregulationDialog_Send X row col r w)) =
           calls (trace w) @
           [SetpointCmdFloat (client (cli w)) C_SE_NC_1
              \<lparr>IsTest = False, IsNegative = False, Cause = Activation\<rparr> 1
              \<lparr>SetpointCommandFloatInfo.Ioa = (row - 1) * 10 + col - 1 + 25089,
               SetpointCommandFloatInfo.Value = float32 X r,
               SetpointCommandFloatInfo.Time = 0\<rparr>]"
proof -
  obtain err w1 where res: "SendTelemetry X ((row - 1) * 10 + col - 1) r w = (err, w1)"
    by (cases "SendTelemetry X ((row - 1) * 10 + col - 1) r w")
  with assms have err: "err = None"
    by simp
  from SendTelemetry_ok [OF assms] res have w1: "w1 = w\<lparr>trace := trace w @
        [Call (SetpointCmdFloat (client (cli w)) C_SE_NC_1
            \<lparr>IsTest = False, IsNegative = False, Cause = Activation\<rparr> 1
            \<lparr>SetpointCommandFloatInfo.Ioa = (row - 1) * 10 + col - 1 + 25089,
             SetpointCommandFloatInfo.Value = float32 X r,
             SetpointCommandFloatInfo.Time = 0\<rparr>)]\<rparr>"
    by simp
  show "Teleregulation (cli (showTeleregulationDialog_Send X row col r w)) =
           (Teleregulation (cli w))((row - 1) * 10 + col - 1 \<mapsto>
              \<lparr>Address = 0, Description = [], Timestamp = 0, TeleregulationPoint.Value = r\<rparr>)"
    unfolding showTeleregulationDialog_Send_def Let_def res err w1 by (simp add: emit_def)
  show "calls (trace (showTeleregulationDialog_Send X row col r w)) =
           calls (trace w) @
           [SetpointCmdFloat (client (cli w)) C_SE_NC_1
              \<lparr>IsTest = False, IsNegative = False, Cause = Activation\<rparr> 1
              \<lparr>SetpointCommandFloatInfo.Ioa = (row - 1) * 10 + col - 1 + 25089,
               SetpointCommandFloatInfo.Value = float32 X r,
               SetpointCommandFloatInfo.Time = 0\<rparr>]"
    unfolding showTeleregulationDialog_Send_def Let_def res err w1 by (simp add: emit_def calls_append)
qed

lemma showTeleregulationDialog_Send_failed:
  assumes "fst (SendTelemetry X ((row - 1) * 10 + col - 1) r w) \<noteq> None"
  shows "Teleregulation (cli (showTeleregulationDialog_Send X row col r w)) =
           Teleregulation (cli w)"
proof -
  obtain err w1 where res: "SendTelemetry X ((row - 1) * 10 + col - 1) r w = (err, w1)"
    by (cases "SendTelemetry X ((row - 1) * 10 + col - 1) r w")
  with assms obtain e where err: "err = Some e"
    by auto
  from SendTelemetry_cli [of X "(row - 1) * 10 + col - 1" r w] res have "cli w1 = cli w"
    by simp
  then show ?thesis
    unfolding showTeleregulationDialog_Send_def Let_def res err by (simp add: emit_def)
qed

text \<open>
  Claim C7.  An entry of the telemetry or teleindication table that \<open>ASDUHandler\<close> has
  written or changed stands under a wire address of the message, and that address is the
  entry's own \<open>Address\<close>; the handler never writes the two command tables.  Every object
  of a dispatched message is in its table under its wire address.  The local echo is
  written by the \<open>Send\<close> button of the dialog, right after \<open>SendTelecontrol(index, v)\<close>
  (or \<open>SendTelemetry(index, r)\<close>) has returned \<open>nil\<close>: the entry goes under \<open>index\<close>,
  the offset given to the send operation, while the commands on the wire carry
  \<open>index + 24577\<close> (or \<open>index + 25089\<close>), which is a different key.  When the send
  operation returns an error, no echo is written.
\<close>

theorem table_keys:
  "(\<forall>k p. Telemetry (cli (snd (ASDUHandler X a w))) k = Some p \<longrightarrow>
      Telemetry (cli w) k = Some p \<or> (Address p = k \<and> k \<in> wire_addresses a)) \<and>
   (\<forall>k p. Teleindication (cli (snd (ASDUHandler X a w))) k = Some p \<longrightarrow>
      Teleindication (cli w) k = Some p \<or> (Address p = k \<and> k \<in> wire_addresses a)) \<and>
   Telecontrol (cli (snd (ASDUHandler X a w))) = Telecontrol (cli w) \<and>
   Teleregulation (cli (snd (ASDUHandler X a w))) = Teleregulation (cli w) \<and>
   (CommonAddr (Identifier a) = ucast (commonAddr (cli w)) \<longrightarrow> Type (Identifier a) = M_ME_NC_1 \<longrightarrow>
      (\<forall>d\<in>set (GetMeasuredValueFloat a). \<exists>p. Telemetry (cli (snd (ASDUHandler X a w))) (InfoObj.Ioa d) = Some p \<and> Address p = InfoObj.Ioa d)) \<and>
   (CommonAddr (Identifier a) = ucast (commonAddr (cli w)) \<longrightarrow>
    Type (Identifier a) = M_ME_NA_1 \<or> Type (Identifier a) = M_ME_ND_1 \<longrightarrow>
      (\<forall>d\<in>set (GetMeasuredValueNormal a). \<exists>p. Telemetry (cli (snd (ASDUHandler X a w))) (InfoObj.Ioa d) = Some p \<and> Address p = InfoObj.Ioa d)) \<and>
   (CommonAddr (Identifier a) = ucast (commonAddr (cli w)) \<longrightarrow> Type (Identifier a) = M_ME_NB_1 \<longrightarrow>
      (\<forall>d\<in>set (GetMeasuredValueScaled a). \<exists>p. Telemetry (cli (snd (ASDUHandler X a w))) (InfoObj.Ioa d) = Some p \<and> Address p = InfoObj.Ioa d)) \<and>
   (CommonAddr (Identifier a) = ucast (commonAddr (cli w)) \<longrightarrow> Type (Identifier a) = M_SP_NA_1 \<longrightarrow>
      (\<forall>d\<in>set (GetSinglePoint a). \<exists>p. Teleindication (cli (snd (ASDUHandler X a w))) (InfoObj.Ioa d) = Some p \<and> Address p = InfoObj.Ioa d)) \<and>
   (fst (SendTelecontrol X ((row - 1) * 10 + col - 1) v w) = None \<longrightarrow>
      Telecontrol (cli (showTelecontrolDialog_Send X row col v w)) =
        (Telecontrol (cli w))((row - 1) * 10 + col - 1 \<mapsto>
           \<lparr>Address = 0, Description = [], Timestamp = 0, TelecontrolPoint.Value = v\<rparr>) \<and>
      calls (trace (showTelecontrolDialog_Send X row col v w)) =
        calls (trace w) @
        [SingleCmd (client (cli w)) C_SC_NA_1
            \<lparr>IsTest = False, IsNegative = False, Cause = Activation\<rparr> 1
            \<lparr>SingleCommandInfo.Ioa = (row - 1) * 10 + col - 1 + 24577, SingleCommandInfo.Value = v,
             Qoc = \<lparr>Qual = 0, InSelect = True\<rparr>, SingleCommandInfo.Time = 0\<rparr>,
         SingleCmd (client (cli w)) C_SC_NA_1
            \<lparr>IsTest = False, IsNegative = False, Cause = Activation\<rparr> 1
            \<lparr>SingleCommandInfo.Ioa = (row - 1) * 10 + col - 1 + 24577, SingleCommandInfo.Value = v,
             Qoc = \<lparr>Qual = 0, InSelect = False\<rparr>, SingleCommandInfo.Time = 0\<rparr>] \<and>
      (row - 1) * 10 + col - 1 + 24577 \<noteq> (row - 1) * 10 + col - 1) \<and>
   (fst (SendTelecontrol X ((row - 1) * 10 + col - 1) v w) \<noteq> None \<longrightarrow>
      Telecontrol (cli (showTelecontrolDialog_Send X row col v w)) = Telecontrol (cli w)) \<and>
   (fst (SendTelemetry X ((row - 1) * 10 + col - 1) r w) = None \<longrightarrow>
      Teleregulation (cli (showTeleregulationDialog_Send X row col r w)) =
        (Teleregulation (cli w))((row - 1) * 10 + col - 1 \<mapsto>
           \<lparr>Address = 0, Description = [], Timestamp = 0, TeleregulationPoint.Value = r\<rparr>) \<and>
      calls (trace (showTeleregulationDialog_Send X row col r w)) =
        calls (trace w) @
        [SetpointCmdFloat (client (cli w)) C_SE_NC_1
            \<lparr>IsTest = False, IsNegative = False, Cause = Activation\<rparr> 1
            \<lparr>SetpointCommandFloatInfo.Ioa = (row - 1) * 10 + col - 1 + 25089,
             SetpointCommandFloatInfo.Value = float32 X r,
             SetpointCommandFloatInfo.Time = 0\<rparr>] \<and>
      (row - 1) * 10 + col - 1 + 25089 \<noteq> (row - 1) * 10 + col - 1) \<and>
   (fst (SendTelemetry X ((row - 1) * 10 + col - 1) r w) \<noteq> None \<longrightarrow>
      Teleregulation (cli (showTeleregulationDialog_Send X row col r w)) =
        Teleregulation (cli w))"
proof -
  have in_tm: "(\<forall>k p. Telemetry (cli (snd (ASDUHandler X a w))) k = Some p \<longrightarrow>
          Telemetry (cli w) k = Some p \<or> (Address p = k \<and> k \<in> wire_addresses a))"
    using ASDUHandler_Telemetry_keyed by blast
  have in_ti: "(\<forall>k p. Teleindication (cli (snd (ASDUHandler X a w))) k = Some p \<longrightarrow>
          Teleindication (cli w) k = Some p \<or> (Address p = k \<and> k \<in> wire_addresses a))"
    using ASDUHandler_Teleindication_keyed by blast
  have in_tc: "Telecontrol (cli (snd (ASDUHandler X a w))) = Telecontrol (cli w)"
    by (simp add: ASDUHandler_command_tables)
  have in_tr: "Teleregulation (cli (snd (ASDUHandler X a w))) = Teleregulation (cli w)"
    by (simp add: ASDUHandler_command_tables)
  have all_float: "(CommonAddr (Identifier a) = ucast (commonAddr (cli w)) \<longrightarrow> Type (Identifier a) = M_ME_NC_1 \<longrightarrow>
          (\<forall>d\<in>set (GetMeasuredValueFloat a). \<exists>p. Telemetry (cli (snd (ASDUHandler X a w))) (InfoObj.Ioa d) = Some p \<and> Address p = InfoObj.Ioa d))"
    by (simp add: ASDUHandler_eq telemetry_stored_all)
  have all_normal: "(CommonAddr (Identifier a) = ucast (commonAddr (cli w)) \<longrightarrow>
        Type (Identifier a) = M_ME_NA_1 \<or> Type (Identifier a) = M_ME_ND_1 \<longrightarrow>
          (\<forall>d\<in>set (GetMeasuredValueNormal a). \<exists>p. Telemetry (cli (snd (ASDUHandler X a w))) (InfoObj.Ioa d) = Some p \<and> Address p = InfoObj.Ioa d))"
    by (auto simp: ASDUHandler_eq telemetry_stored_all)
  have all_scaled: "(CommonAddr (Identifier a) = ucast (commonAddr (cli w)) \<longrightarrow> Type (Identifier a) = M_ME_NB_1 \<longrightarrow>
          (\<forall>d\<in>set (GetMeasuredValueScaled a). \<exists>p. Telemetry (cli (snd (ASDUHandler X a w))) (InfoObj.Ioa d) = Some p \<and> Address p = InfoObj.Ioa d))"
    by (simp add: ASDUHandler_eq telemetry_stored_all)
  have all_single: "(CommonAddr (Identifier a) = ucast (commonAddr (cli w)) \<longrightarrow> Type (Identifier a) = M_SP_NA_1 \<longrightarrow>
          (\<forall>d\<in>set (GetSinglePoint a). \<exists>p. Teleindication (cli (snd (ASDUHandler X a w))) (InfoObj.Ioa d) = Some p \<and> Address p = InfoObj.Ioa d))"
    by (simp add: ASDUHandler_eq teleindication_stored_all)
  have echo_tc: "(fst (SendTelecontrol X ((row - 1) * 10 + col - 1) v w) = None \<longrightarrow>
          Telecontrol (cli (showTelecontrolDialog_Send X row col v w)) =
            (Telecontrol (cli w))((row - 1) * 10 + col - 1 \<mapsto>
               \<lparr>Address = 0, Description = [], Timestamp = 0, TelecontrolPoint.Value = v\<rparr>) \<and>
          calls (trace (showTelecontrolDialog_Send X row col v w)) =
            calls (trace w) @
            [SingleCmd (client (cli w)) C_SC_NA_1
                \<lparr>IsTest = False, IsNegative = False, Cause = Activation\<rparr> 1
                \<lparr>SingleCommandInfo.Ioa = (row - 1) * 10 + col - 1 + 24577, SingleCommandInfo.Value = v,
                 Qoc = \<lparr>Qual = 0, InSelect = True\<rparr>, SingleCommandInfo.Time = 0\<rparr>,
             SingleCmd (client (cli w)) C_SC_NA_1
                \<lparr>IsTest = False, IsNegative = False, Cause = Activation\<rparr> 1
                \<lparr>SingleCommandInfo.Ioa = (row - 1) * 10 + col - 1 + 24577, SingleCommandInfo.Value = v,
                 Qoc = \<lparr>Qual = 0, InSelect = False\<rparr>, SingleCommandInfo.Time = 0\<rparr>] \<and>
          (row - 1) * 10 + col - 1 + 24577 \<noteq> (row - 1) * 10 + col - 1)"
    using showTelecontrolDialog_Send_ok [of X row col v w] by simp
  have fail_tc: "(fst (SendTelecontrol X ((row - 1) * 10 + col - 1) v w) \<noteq> None \<longrightarrow>
          Telecontrol (cli (showTelecontrolDialog_Send X row col v w)) = Telecontrol (cli w))"
    using showTelecontrolDialog_Send_failed [of X row col v w] by blast
  have echo_tr: "(fst (SendTelemetry X ((row - 1) * 10 + col - 1) r w) = None \<longrightarrow>
          Teleregulation (cli (showTeleregulationDialog_Send X row col r w)) =
            (Teleregulation (cli w))((row - 1) * 10 + col - 1 \<mapsto>
               \<lparr>Address = 0, Description = [], Timestamp = 0, TeleregulationPoint.Value = r\<rparr>) \<and>
          calls (trace (showTeleregulationDialog_Send X row col r w)) =
            calls (trace w) @
            [SetpointCmdFloat (client (cli w)) C_SE_NC_1
                \<lparr>IsTest = False, IsNegative = False, Cause = Activation\<rparr> 1
                \<lparr>SetpointCommandFloatInfo.Ioa = (row - 1) * 10 + col - 1 + 25089,
                 SetpointCommandFloatInfo.Value = float32 X r,
                 SetpointCommandFloatInfo.Time = 0\<rparr>] \<and>
          (row - 1) * 10 + col - 1 + 25089 \<noteq> (row - 1) * 10 + col - 1)"
    using showTeleregulationDialog_Send_ok [of X row col r w] by simp
  have fail_tr: "(fst (SendTelemetry X ((row - 1) * 10 + col - 1) r w) \<noteq> None \<longrightarrow>
          Teleregulation (cli (showTeleregulationDialog_Send X row col r w)) =
            Teleregulation (cli w))"
    using showTeleregulationDialog_Send_failed [of X row col r w] by blast
  show ?thesis
    by (intro conjI in_tm in_ti in_tc in_tr all_float all_normal all_scaled all_single echo_tc fail_tc echo_tr fail_tr)
qed

text \<open>
  The theorem for the short-float message of station 1 and for the dialog opened on row 1,
  column 6, which is the offset 5: the echo is \<open>Telecontrol[5]\<close> with the value true, and
  nothing stands under the wire address 24582.
\<close>

theorem table_keys_witness:
  "(\<exists>p. Telemetry (cli (snd (ASDUHandler lib_ok (float_msg 1) (online 1)))) 100 = Some p \<and>
        Address p = 100) \<and>
   fst (SendTelecontrol lib_ok 5 True (online 1)) = None \<and>
   Telecontrol (cli (showTelecontrolDialog_Send lib_ok 1 6 True (online 1))) 5 =
     Some \<lparr>Address = 0, Description = [], Timestamp = 0, TelecontrolPoint.Value = True\<rparr> \<and>
   Telecontrol (cli (showTelecontrolDialog_Send lib_ok 1 6 True (online 1))) 24582 = None"
proof -
  note keys = table_keys [where X = lib_ok and a = "float_msg 1" and w = "online 1"
      and row = 1 and col = 6 and v = True and r = "3 / 2"]
  have sent: "fst (SendTelecontrol lib_ok ((1 - 1) * 10 + 6 - 1) True (online 1)) = None"
    by (simp add: SendTelecontrol_def online_Connected online_client call_def emit_def
        lib_ok_def)
  have station: "CommonAddr (Identifier (float_msg 1)) = ucast (commonAddr (cli (online 1)))"
    by (simp add: float_msg_def online_commonAddr)
  have kind: "Type (Identifier (float_msg 1)) = M_ME_NC_1"
    by (simp add: float_msg_def)
  have "\<forall>d\<in>set (GetMeasuredValueFloat (float_msg 1)).
      \<exists>p. Telemetry (cli (snd (ASDUHandler lib_ok (float_msg 1) (online 1)))) (InfoObj.Ioa d) =
            Some p \<and> Address p = InfoObj.Ioa d"
    using keys station kind by blast
  then have inbound: "\<exists>p. Telemetry (cli (snd (ASDUHandler lib_ok (float_msg 1) (online 1)))) 100 =
      Some p \<and> Address p = 100"
    by (simp add: float_msg_def)
  have echo: "Telecontrol (cli (showTelecontrolDialog_Send lib_ok 1 6 True (online 1))) =
        (Telecontrol (cli (online 1)))((1 - 1) * 10 + 6 - 1 \<mapsto>
           \<lparr>Address = 0, Description = [], Timestamp = 0, TelecontrolPoint.Value = True\<rparr>)"
    using keys sent by blast
  show ?thesis
    using sent inbound by (simp add: echo online_Telecontrol)
qed

end
